theory Spec2Isabelle
  imports Main
begin

text \<open>
  The source integrations of the papers-feed browser extension: for each publisher a list of
  URL patterns with \<^verbatim>\<open>extractPaperId\<close>, a metadata extractor that overrides the accessors of
  the base extractor with its own fallback chains, and the registry of all integrations.
  The first part embeds the code; the second part states and proves its properties.
\<close>

section \<open>Strings and JavaScript string primitives\<close>

text \<open>
  JavaScript strings are modelled as HOL strings (lists of \<^typ>\<open>char\<close>, code units below 256).
  \<^verbatim>\<open>\d\<close> is \<^verbatim>\<open>[0-9]\<close>; \<^verbatim>\<open>\s\<close> and \<^verbatim>\<open>String.prototype.trim\<close> use the same
  white-space set, of which the code units 9 to 13, 32 and 160 lie in this range.
\<close>

definition is_digit :: "char \<Rightarrow> bool" where
  "is_digit c = (c \<in> set ''0123456789'')"

definition is_space :: "char \<Rightarrow> bool" where
  "is_space c = ((of_char c :: nat) \<in> {9, 10, 11, 12, 13, 32, 160})"

text \<open>\<^verbatim>\<open>a || b\<close> on strings: the empty string is the only falsy string.\<close>

definition or_else :: "string \<Rightarrow> string \<Rightarrow> string" where
  "or_else a b = (if a \<noteq> [] then a else b)"

text \<open>\<^verbatim>\<open>Array.prototype.join\<close> with a separator.\<close>

fun join :: "string \<Rightarrow> string list \<Rightarrow> string" where
  "join sep [] = []"
| "join sep [x] = x"
| "join sep (x # y # ys) = x @ sep @ join sep (y # ys)"

text \<open>\<^verbatim>\<open>String.prototype.trim\<close>.\<close>

definition trim :: "string \<Rightarrow> string" where
  "trim s = rev (dropWhile is_space (rev (dropWhile is_space s)))"

text \<open>
  \<^verbatim>\<open>s.split(/[;,]/)\<close>: the separator matches exactly one character, so the pieces are the
  maximal runs between separator characters; the empty string splits into one empty piece.
  The scan keeps the piece it is collecting and closes it at each separator.
\<close>

fun split_from :: "(char \<Rightarrow> bool) \<Rightarrow> string \<Rightarrow> string \<Rightarrow> string list" where
  "split_from P piece [] = [piece]"
| "split_from P piece (x # xs) =
     (if P x then piece # split_from P [] xs else split_from P (piece @ [x]) xs)"

definition split_on :: "(char \<Rightarrow> bool) \<Rightarrow> string \<Rightarrow> string list" where
  "split_on P s = split_from P [] s"

definition is_tag_separator :: "char \<Rightarrow> bool" where
  "is_tag_separator c = (c = CHR '';'' \<or> c = CHR '','')"

section \<open>Regular expressions as the URL patterns use them\<close>

text \<open>
  Every \<^verbatim>\<open>urlPatterns\<close> entry is a sequence of literal characters and character classes,
  each taken once or under a greedy quantifier (\<^verbatim>\<open>+\<close>, \<^verbatim>\<open>*\<close>, \<^verbatim>\<open>?\<close>), with
  unnested capture groups. A pattern is the list of these items in source order.
\<close>

datatype atom = Ch char | Digit | Space | Range char char

fun atom_has :: "atom \<Rightarrow> char \<Rightarrow> bool" where
  "atom_has (Ch c) x = (x = c)"
| "atom_has Digit x = is_digit x"
| "atom_has Space x = is_space x"
| "atom_has (Range lo hi) x = ((of_char lo :: nat) \<le> of_char x \<and> (of_char x :: nat) \<le> of_char hi)"

datatype cset = Atom atom | AnyOf "atom list" | NoneOf "atom list"

fun cset_has :: "cset \<Rightarrow> char \<Rightarrow> bool" where
  "cset_has (Atom a) x = atom_has a x"
| "cset_has (AnyOf as) x = list_ex (\<lambda>a. atom_has a x) as"
| "cset_has (NoneOf as) x = (\<not> list_ex (\<lambda>a. atom_has a x) as)"

datatype item = One cset | Many1 cset | Many0 cset | Maybe cset | GroupOpen | GroupClose

type_synonym pattern = "item list"

definition lit :: "string \<Rightarrow> pattern" where
  "lit w = map (\<lambda>c. One (Atom (Ch c))) w"

text \<open>
  The state of one match attempt: the text matched so far, the capture groups already
  closed, and the text of the group that is open, if one is.
\<close>

record mstate =
  whole :: string
  groups :: "string list"
  cur :: "string option"

definition feed :: "char \<Rightarrow> mstate \<Rightarrow> mstate" where
  "feed x st = st\<lparr>whole := whole st @ [x], cur := map_option (\<lambda>g. g @ [x]) (cur st)\<rparr>"

definition open_group :: "mstate \<Rightarrow> mstate" where
  "open_group st = st\<lparr>cur := Some []\<rparr>"

definition close_group :: "mstate \<Rightarrow> mstate" where
  "close_group st = st\<lparr>groups := groups st @ [case cur st of None \<Rightarrow> [] | Some g \<Rightarrow> g], cur := None\<rparr>"

text \<open>
  The backtracking matcher anchored at the head of the input: a greedy quantifier first
  takes one more character and, when the rest of the pattern then fails, gives it back.
  A pattern matches a prefix of the input; what follows the match is not looked at.
\<close>

fun run :: "pattern \<Rightarrow> string \<Rightarrow> mstate \<Rightarrow> mstate option" where
  "run [] s st = Some st"
| "run (One c # p) [] st = None"
| "run (One c # p) (x # xs) st = (if cset_has c x then run p xs (feed x st) else None)"
| "run (Many1 c # p) [] st = None"
| "run (Many1 c # p) (x # xs) st =
     (if cset_has c x then run (Many0 c # p) xs (feed x st) else None)"
| "run (Many0 c # p) [] st = run p [] st"
| "run (Many0 c # p) (x # xs) st =
     (if cset_has c x
      then (case run (Many0 c # p) xs (feed x st) of
              Some r \<Rightarrow> Some r
            | None \<Rightarrow> run p (x # xs) st)
      else run p (x # xs) st)"
| "run (Maybe c # p) [] st = run p [] st"
| "run (Maybe c # p) (x # xs) st =
     (if cset_has c x
      then (case run p xs (feed x st) of
              Some r \<Rightarrow> Some r
            | None \<Rightarrow> run p (x # xs) st)
      else run p (x # xs) st)"
| "run (GroupOpen # p) s st = run p s (open_group st)"
| "run (GroupClose # p) s st = run p s (close_group st)"

definition start :: mstate where
  "start = \<lparr>whole = [], groups = [], cur = None\<rparr>"

text \<open>The match array: index 0 is the whole match, index k the k-th capture group.\<close>

definition match_array :: "mstate \<Rightarrow> string list" where
  "match_array st = whole st # groups st"

text \<open>
  \<^verbatim>\<open>url.match(pattern)\<close> for a pattern without the global flag: the match at the leftmost
  position where the pattern matches, \<open>None\<close> (\<^verbatim>\<open>null\<close>) when there is no such position.
\<close>

fun js_match :: "string \<Rightarrow> pattern \<Rightarrow> string list option" where
  "js_match [] p = map_option match_array (run p [] start)"
| "js_match (x # xs) p =
     (case run p (x # xs) start of
        Some r \<Rightarrow> Some (match_array r)
      | None \<Rightarrow> js_match xs p)"

text \<open>
  \<^verbatim>\<open>match[k]\<close>: an index past the end of the array reads \<^verbatim>\<open>undefined\<close>, here \<open>None\<close>.
  In a template literal \<^verbatim>\<open>undefined\<close> prints as the word.
\<close>

definition group :: "string list \<Rightarrow> nat \<Rightarrow> string option" where
  "group m k = (if k < length m then Some (m ! k) else None)"

definition template :: "string option \<Rightarrow> string" where
  "template v = (case v of None \<Rightarrow> ''undefined'' | Some s \<Rightarrow> s)"

text \<open>
  The loop every \<^verbatim>\<open>extractPaperId\<close> runs:
  \<^verbatim>\<open>for (const pattern of this.urlPatterns) { const match = url.match(pattern);
  if (match) { return ...; } } return null;\<close>
  with the returned expression as the parameter \<open>ret\<close>.
\<close>

fun for_patterns :: "(string list \<Rightarrow> string option) \<Rightarrow> pattern list \<Rightarrow> string \<Rightarrow> string option" where
  "for_patterns ret [] url = None"
| "for_patterns ret (p # ps) url =
     (case js_match url p of
        Some m \<Rightarrow> ret m
      | None \<Rightarrow> for_patterns ret ps url)"

text \<open>\<^verbatim>\<open>return match[1];\<close>\<close>

definition ret_group1 :: "string list \<Rightarrow> string option" where
  "ret_group1 m = group m 1"

section \<open>The URL patterns and \<^verbatim>\<open>extractPaperId\<close> of each integration\<close>

abbreviation digits1 :: item where
  "digits1 \<equiv> Many1 (Atom Digit)"

subsection \<open>medRxiv\<close>

definition MedRxiv_urlPatterns :: "pattern list" where
  "MedRxiv_urlPatterns =
    [ lit ''medrxiv.org/content/'' @ [GroupOpen] @ lit ''10.'' @ [digits1] @ lit ''/''
        @ [Many1 (NoneOf [Ch (CHR ''v''), Space, Ch (CHR ''?'')]), GroupClose,
           Maybe (Atom (Ch (CHR ''v''))), Many0 (Atom Digit)],
      lit ''medrxiv.org/content/early/'' @ [digits1] @ lit ''/'' @ [digits1] @ lit ''/''
        @ [digits1] @ lit ''/'' @ [GroupOpen, digits1, GroupClose] ]"

definition MedRxiv_extractPaperId :: "string \<Rightarrow> string option" where
  "MedRxiv_extractPaperId url = for_patterns ret_group1 MedRxiv_urlPatterns url"

subsection \<open>NeurIPS\<close>

abbreviation hex1 :: item where
  "hex1 \<equiv> Many1 (AnyOf [Range (CHR ''a'') (CHR ''f''), Range (CHR ''0'') (CHR ''9'')])"

definition NeurIPS_urlPatterns :: "pattern list" where
  "NeurIPS_urlPatterns =
    [ lit ''papers.nips.cc/paper/'' @ [GroupOpen, digits1, GroupClose] @ lit ''/hash/''
        @ [GroupOpen, hex1, GroupClose],
      lit ''papers.nips.cc/paper/'' @ [GroupOpen, digits1, GroupClose] @ lit ''/file/''
        @ [GroupOpen, hex1, GroupClose],
      lit ''proceedings.neurips.cc/paper/'' @ [GroupOpen, digits1, GroupClose] @ lit ''/hash/''
        @ [GroupOpen, hex1, GroupClose],
      lit ''proceedings.neurips.cc/paper/'' @ [GroupOpen, digits1, GroupClose] @ lit ''/file/''
        @ [GroupOpen, hex1, GroupClose],
      lit ''proceedings.neurips.cc/paper_files/paper/'' @ [GroupOpen, digits1, GroupClose]
        @ lit ''/hash/'' @ [GroupOpen, hex1, GroupClose] ]"

text \<open>\<^verbatim>\<open>return `${match[1]}-${match[2]}`;\<close>\<close>

definition NeurIPS_ret :: "string list \<Rightarrow> string option" where
  "NeurIPS_ret m = Some (template (group m 1) @ ''-'' @ template (group m 2))"

definition NeurIPS_extractPaperId :: "string \<Rightarrow> string option" where
  "NeurIPS_extractPaperId url = for_patterns NeurIPS_ret NeurIPS_urlPatterns url"

subsection \<open>ACM Digital Library\<close>

definition ACM_urlPatterns :: "pattern list" where
  "ACM_urlPatterns =
    [ lit ''dl.acm.org/doi/'' @ [GroupOpen] @ lit ''10.'' @ [digits1] @ lit ''/''
        @ [digits1, GroupClose],
      lit ''dl.acm.org/doi/abs/'' @ [GroupOpen] @ lit ''10.'' @ [digits1] @ lit ''/''
        @ [digits1, GroupClose],
      lit ''dl.acm.org/citation.cfm?id='' @ [GroupOpen, digits1, GroupClose] ]"

definition ACM_extractPaperId :: "string \<Rightarrow> string option" where
  "ACM_extractPaperId url = for_patterns ret_group1 ACM_urlPatterns url"

subsection \<open>SSRN\<close>

definition SSRN_urlPatterns :: "pattern list" where
  "SSRN_urlPatterns =
    [ lit ''ssrn.com/abstract='' @ [GroupOpen, digits1, GroupClose],
      lit ''papers.ssrn.com/sol3/papers.cfm?abstract_id='' @ [GroupOpen, digits1, GroupClose] ]"

definition SSRN_extractPaperId :: "string \<Rightarrow> string option" where
  "SSRN_extractPaperId url = for_patterns ret_group1 SSRN_urlPatterns url"

subsection \<open>CVF Open Access\<close>

abbreviation us_or_slash :: item where
  "us_or_slash \<equiv> One (AnyOf [Ch (CHR ''_''), Ch (CHR ''/'')])"

definition CVF_urlPatterns :: "pattern list" where
  "CVF_urlPatterns =
    [ lit ''openaccess.thecvf.com/content'' @ [us_or_slash, GroupOpen,
          Many1 (AnyOf [Range (CHR ''A'') (CHR ''Z'')]), GroupClose, us_or_slash,
          GroupOpen, digits1, GroupClose, us_or_slash]
        @ lit ''html'' @ [us_or_slash, GroupOpen, Many1 (NoneOf [Ch (CHR ''.'')]), GroupClose]
        @ lit ''.html'',
      lit ''openaccess.thecvf.com/content'' @ [us_or_slash, GroupOpen,
          Many1 (AnyOf [Range (CHR ''A'') (CHR ''Z'')]), GroupClose, us_or_slash,
          GroupOpen, digits1, GroupClose, us_or_slash]
        @ lit ''papers'' @ [us_or_slash, GroupOpen, Many1 (NoneOf [Ch (CHR ''.'')]), GroupClose]
        @ lit ''.pdf'' ]"

text \<open>\<^verbatim>\<open>return `${match[1]}-${match[2]}-${match[3]}`;\<close>\<close>

definition CVF_ret :: "string list \<Rightarrow> string option" where
  "CVF_ret m =
     Some (template (group m 1) @ ''-'' @ template (group m 2) @ ''-'' @ template (group m 3))"

definition CVF_extractPaperId :: "string \<Rightarrow> string option" where
  "CVF_extractPaperId url = for_patterns CVF_ret CVF_urlPatterns url"

subsection \<open>Springer\<close>

definition Springer_urlPatterns :: "pattern list" where
  "Springer_urlPatterns =
    [ lit ''link.springer.com/article/'' @ [GroupOpen] @ lit ''10.'' @ [digits1] @ lit ''/''
        @ [Many1 (NoneOf [Space, Ch (CHR ''?'')]), GroupClose],
      lit ''link.springer.com/chapter/'' @ [GroupOpen] @ lit ''10.'' @ [digits1] @ lit ''/''
        @ [Many1 (NoneOf [Space, Ch (CHR ''?'')]), GroupClose] ]"

definition Springer_extractPaperId :: "string \<Rightarrow> string option" where
  "Springer_extractPaperId url = for_patterns ret_group1 Springer_urlPatterns url"

subsection \<open>IEEE Xplore\<close>

definition IEEE_urlPatterns :: "pattern list" where
  "IEEE_urlPatterns =
    [ lit ''ieeexplore.ieee.org/document/'' @ [GroupOpen, digits1, GroupClose],
      lit ''ieeexplore.ieee.org/abstract/document/'' @ [GroupOpen, digits1, GroupClose] ]"

definition IEEE_extractPaperId :: "string \<Rightarrow> string option" where
  "IEEE_extractPaperId url = for_patterns ret_group1 IEEE_urlPatterns url"

subsection \<open>ACL Anthology\<close>

abbreviation upper_digit1 :: item where
  "upper_digit1 \<equiv> Many1 (AnyOf [Range (CHR ''A'') (CHR ''Z''), Range (CHR ''0'') (CHR ''9'')])"

definition ACL_urlPatterns :: "pattern list" where
  "ACL_urlPatterns =
    [ lit ''aclanthology.org/'' @ [GroupOpen, upper_digit1] @ lit ''.'' @ [digits1]
        @ lit ''-'' @ [digits1, GroupClose],
      lit ''aclweb.org/anthology/'' @ [GroupOpen, upper_digit1] @ lit ''.'' @ [digits1]
        @ lit ''-'' @ [digits1, GroupClose] ]"

definition ACL_extractPaperId :: "string \<Rightarrow> string option" where
  "ACL_extractPaperId url = for_patterns ret_group1 ACL_urlPatterns url"


section \<open>The page document\<close>

text \<open>
  The extractors see the page only through \<^verbatim>\<open>querySelectorAll\<close>, \<^verbatim>\<open>querySelector\<close>,
  \<^verbatim>\<open>getAttribute\<close> and \<^verbatim>\<open>textContent\<close>. A document is what \<^verbatim>\<open>querySelectorAll\<close>
  answers for each selector string, in document order; \<^verbatim>\<open>querySelector\<close> is the first
  element of that answer, \<^verbatim>\<open>null\<close> when it is empty.
\<close>

type_synonym selector = string

record element =
  getAttribute :: "string \<Rightarrow> string option"
  textContent :: "string option"

record document =
  querySelectorAll :: "selector \<Rightarrow> element list"

definition querySelector :: "document \<Rightarrow> selector \<Rightarrow> element option" where
  "querySelector doc sel = (case querySelectorAll doc sel of [] \<Rightarrow> None | el # _ \<Rightarrow> Some el)"

text \<open>
  Modelled from the spec: \<^verbatim>\<open>getMetaContent\<close> is declared in the base class
  (\<^verbatim>\<open>metadata-extractor.ts\<close>), which is not among the sources. The spec has the extractors
  read \<^verbatim>\<open><meta>\<close> tags, a meta tag being a key/value annotation of the page, with absence
  of data giving the empty string: the \<^verbatim>\<open>content\<close> attribute of the first element the
  selector finds, and the empty string when there is no such element or attribute.
\<close>

definition getMetaContent :: "document \<Rightarrow> selector \<Rightarrow> string" where
  "getMetaContent doc sel =
     (case querySelector doc sel of
        None \<Rightarrow> []
      | Some el \<Rightarrow> (case getAttribute el ''content'' of None \<Rightarrow> [] | Some c \<Rightarrow> c))"

text \<open>
  The base class \<^verbatim>\<open>MetadataExtractor\<close> is not among the sources either. The overriding
  methods reach it only through \<^verbatim>\<open>super.extractX()\<close>, so the inherited methods are a
  parameter of every override.
\<close>

record MetadataExtractor =
  extractTitle :: "document \<Rightarrow> string"
  extractAuthors :: "document \<Rightarrow> string"
  extractDescription :: "document \<Rightarrow> string"
  extractPublishedDate :: "document \<Rightarrow> string"
  extractDoi :: "document \<Rightarrow> string"
  extractJournalName :: "document \<Rightarrow> string"
  extractTags :: "document \<Rightarrow> string list"

text \<open>
  \<^verbatim>\<open>querySelectorAll(sel).forEach(el => { const content = el.getAttribute('content');
  if (content) list.push(content); })\<close>
\<close>

fun push_contents :: "element list \<Rightarrow> string list" where
  "push_contents [] = []"
| "push_contents (el # els) =
     (case getAttribute el ''content'' of
        None \<Rightarrow> push_contents els
      | Some c \<Rightarrow> (if c \<noteq> [] then c # push_contents els else push_contents els))"

text \<open>\<^verbatim>\<open>Array.from(els).map(el => el.textContent?.trim()).filter(Boolean)\<close>\<close>

fun trimmed_texts :: "element list \<Rightarrow> string list" where
  "trimmed_texts [] = []"
| "trimmed_texts (el # els) =
     (case textContent el of
        None \<Rightarrow> trimmed_texts els
      | Some t \<Rightarrow> (if trim t \<noteq> [] then trim t # trimmed_texts els else trimmed_texts els))"

text \<open>\<^verbatim>\<open>el.textContent?.trim() || ''\<close>\<close>

definition trimmed_text_or_empty :: "element \<Rightarrow> string" where
  "trimmed_text_or_empty el = (case textContent el of None \<Rightarrow> [] | Some t \<Rightarrow> or_else (trim t) [])"

text \<open>\<^verbatim>\<open>keywords.split(/[;,]/).map(tag => tag.trim()).filter(Boolean)\<close>\<close>

definition split_tags :: "string \<Rightarrow> string list" where
  "split_tags keywords = filter (\<lambda>tag. tag \<noteq> []) (map trim (split_on is_tag_separator keywords))"

section \<open>The specialised extractors\<close>

subsection \<open>medRxiv\<close>

definition MedRxiv_extractTitle :: "MetadataExtractor \<Rightarrow> document \<Rightarrow> string" where
  \<open>MedRxiv_extractTitle super doc =
     (let metaTitle =
            or_else (or_else
              (getMetaContent doc ''meta[name="citation_title"]'')
              (getMetaContent doc ''meta[property="og:title"]''))
              (getMetaContent doc ''meta[name="DC.Title"]'')
      in or_else metaTitle (extractTitle super doc))\<close>

definition MedRxiv_extractAuthors :: "MetadataExtractor \<Rightarrow> document \<Rightarrow> string" where
  \<open>MedRxiv_extractAuthors super doc =
     (let citationAuthors = push_contents (querySelectorAll doc ''meta[name="citation_author"]'')
      in if length citationAuthors > 0 then join '', '' citationAuthors
         else extractAuthors super doc)\<close>

definition MedRxiv_extractDescription :: "MetadataExtractor \<Rightarrow> document \<Rightarrow> string" where
  \<open>MedRxiv_extractDescription super doc =
     (let metaDescription =
            or_else (or_else
              (getMetaContent doc ''meta[name="citation_abstract"]'')
              (getMetaContent doc ''meta[name="description"]''))
              (getMetaContent doc ''meta[property="og:description"]'')
      in or_else metaDescription (extractDescription super doc))\<close>

definition MedRxiv_extractPublishedDate :: "MetadataExtractor \<Rightarrow> document \<Rightarrow> string" where
  \<open>MedRxiv_extractPublishedDate super doc =
     or_else (or_else (or_else
       (getMetaContent doc ''meta[name="citation_publication_date"]'')
       (getMetaContent doc ''meta[name="citation_online_date"]''))
       (getMetaContent doc ''meta[name="DC.Date"]''))
       (extractPublishedDate super doc)\<close>

definition MedRxiv_extractDoi :: "MetadataExtractor \<Rightarrow> document \<Rightarrow> string" where
  \<open>MedRxiv_extractDoi super doc =
     or_else (or_else
       (getMetaContent doc ''meta[name="citation_doi"]'')
       (getMetaContent doc ''meta[name="DC.Identifier"]''))
       (extractDoi super doc)\<close>

definition MedRxiv_extractJournalName :: "MetadataExtractor \<Rightarrow> document \<Rightarrow> string" where
  \<open>MedRxiv_extractJournalName super doc =
     or_else (or_else
       (getMetaContent doc ''meta[name="citation_journal_title"]'')
       (''medRxiv''))
       (extractJournalName super doc)\<close>

definition MedRxiv_extractTags :: "MetadataExtractor \<Rightarrow> document \<Rightarrow> string list" where
  \<open>MedRxiv_extractTags super doc =
     (let keywords =
            or_else
              (getMetaContent doc ''meta[name="citation_keywords"]'')
              (getMetaContent doc ''meta[name="keywords"]'')
      in if keywords \<noteq> [] then split_tags keywords
         else extractTags super doc)\<close>

subsection \<open>NeurIPS (\<^verbatim>\<open>extractDoi\<close> is inherited)\<close>

definition NeurIPS_extractTitle :: "MetadataExtractor \<Rightarrow> document \<Rightarrow> string" where
  \<open>NeurIPS_extractTitle super doc =
     (let metaTitle =
            or_else
              (getMetaContent doc ''meta[name="citation_title"]'')
              (getMetaContent doc ''meta[property="og:title"]'')
      in or_else metaTitle (extractTitle super doc))\<close>

definition NeurIPS_extractAuthors :: "MetadataExtractor \<Rightarrow> document \<Rightarrow> string" where
  \<open>NeurIPS_extractAuthors super doc =
     (let citationAuthors = push_contents (querySelectorAll doc ''meta[name="citation_author"]'')
      in if length citationAuthors > 0 then join '', '' citationAuthors
         else (let authorElements = querySelectorAll doc ''.author a, .author span''
               in if length authorElements > 0 then join '', '' (trimmed_texts authorElements)
                  else extractAuthors super doc))\<close>

definition NeurIPS_extractDescription :: "MetadataExtractor \<Rightarrow> document \<Rightarrow> string" where
  \<open>NeurIPS_extractDescription super doc =
     (let metaDescription =
            or_else (or_else
              (getMetaContent doc ''meta[name="citation_abstract"]'')
              (getMetaContent doc ''meta[name="description"]''))
              (getMetaContent doc ''meta[property="og:description"]'')
      in if metaDescription = []
         then (case querySelector doc ''.abstract'' of
                 Some abstractSection \<Rightarrow> trimmed_text_or_empty abstractSection
               | None \<Rightarrow> or_else metaDescription (extractDescription super doc))
         else or_else metaDescription (extractDescription super doc))\<close>

definition NeurIPS_extractPublishedDate :: "MetadataExtractor \<Rightarrow> document \<Rightarrow> string" where
  \<open>NeurIPS_extractPublishedDate super doc =
     or_else (or_else
       (getMetaContent doc ''meta[name="citation_publication_date"]'')
       (getMetaContent doc ''meta[name="citation_date"]''))
       (extractPublishedDate super doc)\<close>

definition NeurIPS_extractJournalName :: "MetadataExtractor \<Rightarrow> document \<Rightarrow> string" where
  \<open>NeurIPS_extractJournalName super doc =
     or_else (or_else
       (getMetaContent doc ''meta[name="citation_conference_title"]'')
       (''NeurIPS''))
       (extractJournalName super doc)\<close>

definition NeurIPS_extractTags :: "MetadataExtractor \<Rightarrow> document \<Rightarrow> string list" where
  \<open>NeurIPS_extractTags super doc =
     (let keywords =
            or_else
              (getMetaContent doc ''meta[name="citation_keywords"]'')
              (getMetaContent doc ''meta[name="keywords"]'')
      in if keywords \<noteq> [] then split_tags keywords
         else extractTags super doc)\<close>

subsection \<open>ACM Digital Library\<close>

definition ACM_extractTitle :: "MetadataExtractor \<Rightarrow> document \<Rightarrow> string" where
  \<open>ACM_extractTitle super doc =
     (let metaTitle =
            or_else (or_else
              (getMetaContent doc ''meta[name="citation_title"]'')
              (getMetaContent doc ''meta[property="og:title"]''))
              (getMetaContent doc ''meta[name="dc.Title"]'')
      in or_else metaTitle (extractTitle super doc))\<close>

definition ACM_extractAuthors :: "MetadataExtractor \<Rightarrow> document \<Rightarrow> string" where
  \<open>ACM_extractAuthors super doc =
     (let citationAuthors = push_contents (querySelectorAll doc ''meta[name="citation_author"]'')
      in if length citationAuthors > 0 then join '', '' citationAuthors
         else extractAuthors super doc)\<close>

definition ACM_extractDescription :: "MetadataExtractor \<Rightarrow> document \<Rightarrow> string" where
  \<open>ACM_extractDescription super doc =
     (let metaDescription =
            or_else
              (getMetaContent doc ''meta[name="description"]'')
              (getMetaContent doc ''meta[property="og:description"]'')
      in or_else metaDescription (extractDescription super doc))\<close>

definition ACM_extractPublishedDate :: "MetadataExtractor \<Rightarrow> document \<Rightarrow> string" where
  \<open>ACM_extractPublishedDate super doc =
     or_else (or_else (or_else
       (getMetaContent doc ''meta[name="citation_publication_date"]'')
       (getMetaContent doc ''meta[name="citation_date"]''))
       (getMetaContent doc ''meta[name="dc.Date"]''))
       (extractPublishedDate super doc)\<close>

definition ACM_extractDoi :: "MetadataExtractor \<Rightarrow> document \<Rightarrow> string" where
  \<open>ACM_extractDoi super doc =
     or_else (or_else
       (getMetaContent doc ''meta[name="citation_doi"]'')
       (getMetaContent doc ''meta[name="dc.Identifier"]''))
       (extractDoi super doc)\<close>

definition ACM_extractJournalName :: "MetadataExtractor \<Rightarrow> document \<Rightarrow> string" where
  \<open>ACM_extractJournalName super doc =
     or_else (or_else (or_else
       (getMetaContent doc ''meta[name="citation_journal_title"]'')
       (getMetaContent doc ''meta[name="citation_conference_title"]''))
       (getMetaContent doc ''meta[name="dc.Source"]''))
       (extractJournalName super doc)\<close>

definition ACM_extractTags :: "MetadataExtractor \<Rightarrow> document \<Rightarrow> string list" where
  \<open>ACM_extractTags super doc =
     (let keywords =
            or_else
              (getMetaContent doc ''meta[name="citation_keywords"]'')
              (getMetaContent doc ''meta[name="keywords"]'')
      in if keywords \<noteq> [] then split_tags keywords
         else extractTags super doc)\<close>

subsection \<open>SSRN\<close>

definition SSRN_extractTitle :: "MetadataExtractor \<Rightarrow> document \<Rightarrow> string" where
  \<open>SSRN_extractTitle super doc =
     (let metaTitle =
            or_else
              (getMetaContent doc ''meta[name="citation_title"]'')
              (getMetaContent doc ''meta[property="og:title"]'')
      in or_else metaTitle (extractTitle super doc))\<close>

definition SSRN_extractAuthors :: "MetadataExtractor \<Rightarrow> document \<Rightarrow> string" where
  \<open>SSRN_extractAuthors super doc =
     (let citationAuthors = push_contents (querySelectorAll doc ''meta[name="citation_author"]'')
      in if length citationAuthors > 0 then join '', '' citationAuthors
         else extractAuthors super doc)\<close>

definition SSRN_extractDescription :: "MetadataExtractor \<Rightarrow> document \<Rightarrow> string" where
  \<open>SSRN_extractDescription super doc =
     (let metaDescription =
            or_else
              (getMetaContent doc ''meta[name="description"]'')
              (getMetaContent doc ''meta[property="og:description"]'')
      in or_else metaDescription (extractDescription super doc))\<close>

definition SSRN_extractPublishedDate :: "MetadataExtractor \<Rightarrow> document \<Rightarrow> string" where
  \<open>SSRN_extractPublishedDate super doc =
     or_else (or_else (or_else
       (getMetaContent doc ''meta[name="citation_publication_date"]'')
       (getMetaContent doc ''meta[name="citation_date"]''))
       (getMetaContent doc ''meta[name="citation_online_date"]''))
       (extractPublishedDate super doc)\<close>

definition SSRN_extractDoi :: "MetadataExtractor \<Rightarrow> document \<Rightarrow> string" where
  \<open>SSRN_extractDoi super doc =
     or_else
       (getMetaContent doc ''meta[name="citation_doi"]'')
       (extractDoi super doc)\<close>

definition SSRN_extractJournalName :: "MetadataExtractor \<Rightarrow> document \<Rightarrow> string" where
  \<open>SSRN_extractJournalName super doc =
     or_else (or_else
       (getMetaContent doc ''meta[name="citation_journal_title"]'')
       (''SSRN''))
       (extractJournalName super doc)\<close>

definition SSRN_extractTags :: "MetadataExtractor \<Rightarrow> document \<Rightarrow> string list" where
  \<open>SSRN_extractTags super doc =
     (let keywords =
            or_else
              (getMetaContent doc ''meta[name="citation_keywords"]'')
              (getMetaContent doc ''meta[name="keywords"]'')
      in if keywords \<noteq> [] then split_tags keywords
         else extractTags super doc)\<close>

subsection \<open>CVF Open Access (\<^verbatim>\<open>extractDoi\<close> is inherited)\<close>

definition CVF_extractTitle :: "MetadataExtractor \<Rightarrow> document \<Rightarrow> string" where
  \<open>CVF_extractTitle super doc =
     (let metaTitle =
            or_else
              (getMetaContent doc ''meta[name="citation_title"]'')
              (getMetaContent doc ''meta[property="og:title"]'')
      in or_else metaTitle (extractTitle super doc))\<close>

definition CVF_extractAuthors :: "MetadataExtractor \<Rightarrow> document \<Rightarrow> string" where
  \<open>CVF_extractAuthors super doc =
     (let citationAuthors = push_contents (querySelectorAll doc ''meta[name="citation_author"]'')
      in if length citationAuthors > 0 then join '', '' citationAuthors
         else (let authorElements = querySelectorAll doc ''.author a, #authors b''
               in if length authorElements > 0 then join '', '' (trimmed_texts authorElements)
                  else extractAuthors super doc))\<close>

definition CVF_extractDescription :: "MetadataExtractor \<Rightarrow> document \<Rightarrow> string" where
  \<open>CVF_extractDescription super doc =
     (let metaDescription =
            or_else (or_else
              (getMetaContent doc ''meta[name="citation_abstract"]'')
              (getMetaContent doc ''meta[name="description"]''))
              (getMetaContent doc ''meta[property="og:description"]'')
      in if metaDescription = []
         then (case querySelector doc ''#abstract'' of
                 Some abstractDiv \<Rightarrow> trimmed_text_or_empty abstractDiv
               | None \<Rightarrow> or_else metaDescription (extractDescription super doc))
         else or_else metaDescription (extractDescription super doc))\<close>

definition CVF_extractPublishedDate :: "MetadataExtractor \<Rightarrow> document \<Rightarrow> string" where
  \<open>CVF_extractPublishedDate super doc =
     or_else (or_else
       (getMetaContent doc ''meta[name="citation_publication_date"]'')
       (getMetaContent doc ''meta[name="citation_date"]''))
       (extractPublishedDate super doc)\<close>

definition CVF_extractJournalName :: "MetadataExtractor \<Rightarrow> document \<Rightarrow> string" where
  \<open>CVF_extractJournalName super doc =
     or_else
       (getMetaContent doc ''meta[name="citation_conference_title"]'')
       (extractJournalName super doc)\<close>

definition CVF_extractTags :: "MetadataExtractor \<Rightarrow> document \<Rightarrow> string list" where
  \<open>CVF_extractTags super doc =
     (let keywords =
            or_else
              (getMetaContent doc ''meta[name="citation_keywords"]'')
              (getMetaContent doc ''meta[name="keywords"]'')
      in if keywords \<noteq> [] then split_tags keywords
         else extractTags super doc)\<close>

subsection \<open>Springer\<close>

definition Springer_extractTitle :: "MetadataExtractor \<Rightarrow> document \<Rightarrow> string" where
  \<open>Springer_extractTitle super doc =
     (let metaTitle =
            or_else (or_else
              (getMetaContent doc ''meta[name="citation_title"]'')
              (getMetaContent doc ''meta[property="og:title"]''))
              (getMetaContent doc ''meta[name="dc.title"]'')
      in or_else metaTitle (extractTitle super doc))\<close>

definition Springer_extractAuthors :: "MetadataExtractor \<Rightarrow> document \<Rightarrow> string" where
  \<open>Springer_extractAuthors super doc =
     (let citationAuthors = push_contents (querySelectorAll doc ''meta[name="citation_author"]'')
      in if length citationAuthors > 0 then join '', '' citationAuthors
         else (let dcCreators = push_contents (querySelectorAll doc ''meta[name="dc.creator"]'')
               in if length dcCreators > 0 then join '', '' dcCreators
                  else extractAuthors super doc))\<close>

definition Springer_extractDescription :: "MetadataExtractor \<Rightarrow> document \<Rightarrow> string" where
  \<open>Springer_extractDescription super doc =
     (let metaDescription =
            or_else (or_else
              (getMetaContent doc ''meta[name="dc.description"]'')
              (getMetaContent doc ''meta[name="description"]''))
              (getMetaContent doc ''meta[property="og:description"]'')
      in or_else metaDescription (extractDescription super doc))\<close>

definition Springer_extractPublishedDate :: "MetadataExtractor \<Rightarrow> document \<Rightarrow> string" where
  \<open>Springer_extractPublishedDate super doc =
     or_else (or_else (or_else
       (getMetaContent doc ''meta[name="citation_publication_date"]'')
       (getMetaContent doc ''meta[name="citation_online_date"]''))
       (getMetaContent doc ''meta[name="dc.date"]''))
       (extractPublishedDate super doc)\<close>

definition Springer_extractDoi :: "MetadataExtractor \<Rightarrow> document \<Rightarrow> string" where
  \<open>Springer_extractDoi super doc =
     or_else (or_else
       (getMetaContent doc ''meta[name="citation_doi"]'')
       (getMetaContent doc ''meta[name="dc.identifier"]''))
       (extractDoi super doc)\<close>

definition Springer_extractJournalName :: "MetadataExtractor \<Rightarrow> document \<Rightarrow> string" where
  \<open>Springer_extractJournalName super doc =
     or_else (or_else (or_else
       (getMetaContent doc ''meta[name="citation_journal_title"]'')
       (getMetaContent doc ''meta[name="citation_conference_title"]''))
       (getMetaContent doc ''meta[name="prism.publicationName"]''))
       (extractJournalName super doc)\<close>

definition Springer_extractTags :: "MetadataExtractor \<Rightarrow> document \<Rightarrow> string list" where
  \<open>Springer_extractTags super doc =
     (let keywords =
            or_else
              (getMetaContent doc ''meta[name="citation_keywords"]'')
              (getMetaContent doc ''meta[name="keywords"]'')
      in if keywords \<noteq> [] then split_tags keywords
         else extractTags super doc)\<close>

subsection \<open>IEEE Xplore\<close>

definition IEEE_extractTitle :: "MetadataExtractor \<Rightarrow> document \<Rightarrow> string" where
  \<open>IEEE_extractTitle super doc =
     (let metaTitle =
            or_else
              (getMetaContent doc ''meta[name="citation_title"]'')
              (getMetaContent doc ''meta[property="og:title"]'')
      in or_else metaTitle (extractTitle super doc))\<close>

definition IEEE_extractAuthors :: "MetadataExtractor \<Rightarrow> document \<Rightarrow> string" where
  \<open>IEEE_extractAuthors super doc =
     (let citationAuthors = push_contents (querySelectorAll doc ''meta[name="citation_author"]'')
      in if length citationAuthors > 0 then join '', '' citationAuthors
         else (let authorElements = querySelectorAll doc ''.authors-info .author span''
               in if length authorElements > 0 then join '', '' (trimmed_texts authorElements)
                  else extractAuthors super doc))\<close>

definition IEEE_extractDescription :: "MetadataExtractor \<Rightarrow> document \<Rightarrow> string" where
  \<open>IEEE_extractDescription super doc =
     (let metaDescription =
            or_else
              (getMetaContent doc ''meta[name="description"]'')
              (getMetaContent doc ''meta[property="og:description"]'')
      in if metaDescription = []
         then (case querySelector doc ''.abstract-text'' of
                 Some abstractDiv \<Rightarrow> trimmed_text_or_empty abstractDiv
               | None \<Rightarrow> or_else metaDescription (extractDescription super doc))
         else or_else metaDescription (extractDescription super doc))\<close>

definition IEEE_extractPublishedDate :: "MetadataExtractor \<Rightarrow> document \<Rightarrow> string" where
  \<open>IEEE_extractPublishedDate super doc =
     or_else (or_else (or_else
       (getMetaContent doc ''meta[name="citation_publication_date"]'')
       (getMetaContent doc ''meta[name="citation_date"]''))
       (getMetaContent doc ''meta[name="citation_online_date"]''))
       (extractPublishedDate super doc)\<close>

definition IEEE_extractDoi :: "MetadataExtractor \<Rightarrow> document \<Rightarrow> string" where
  \<open>IEEE_extractDoi super doc =
     or_else
       (getMetaContent doc ''meta[name="citation_doi"]'')
       (extractDoi super doc)\<close>

definition IEEE_extractJournalName :: "MetadataExtractor \<Rightarrow> document \<Rightarrow> string" where
  \<open>IEEE_extractJournalName super doc =
     or_else (or_else
       (getMetaContent doc ''meta[name="citation_journal_title"]'')
       (getMetaContent doc ''meta[name="citation_conference_title"]''))
       (extractJournalName super doc)\<close>

definition IEEE_extractTags :: "MetadataExtractor \<Rightarrow> document \<Rightarrow> string list" where
  \<open>IEEE_extractTags super doc =
     (let keywords =
            or_else
              (getMetaContent doc ''meta[name="citation_keywords"]'')
              (getMetaContent doc ''meta[name="keywords"]'')
      in if keywords \<noteq> [] then split_tags keywords
         else (let keywordElements = querySelectorAll doc ''.keywords .keyword''
               in if length keywordElements > 0 then trimmed_texts keywordElements
                  else extractTags super doc))\<close>

subsection \<open>ACL Anthology\<close>

definition ACL_extractTitle :: "MetadataExtractor \<Rightarrow> document \<Rightarrow> string" where
  \<open>ACL_extractTitle super doc =
     (let metaTitle =
            or_else
              (getMetaContent doc ''meta[name="citation_title"]'')
              (getMetaContent doc ''meta[property="og:title"]'')
      in or_else metaTitle (extractTitle super doc))\<close>

definition ACL_extractAuthors :: "MetadataExtractor \<Rightarrow> document \<Rightarrow> string" where
  \<open>ACL_extractAuthors super doc =
     (let citationAuthors = push_contents (querySelectorAll doc ''meta[name="citation_author"]'')
      in if length citationAuthors > 0 then join '', '' citationAuthors
         else extractAuthors super doc)\<close>

definition ACL_extractDescription :: "MetadataExtractor \<Rightarrow> document \<Rightarrow> string" where
  \<open>ACL_extractDescription super doc =
     (let metaDescription =
            or_else (or_else
              (getMetaContent doc ''meta[name="citation_abstract"]'')
              (getMetaContent doc ''meta[name="description"]''))
              (getMetaContent doc ''meta[property="og:description"]'')
      in or_else metaDescription (extractDescription super doc))\<close>

definition ACL_extractPublishedDate :: "MetadataExtractor \<Rightarrow> document \<Rightarrow> string" where
  \<open>ACL_extractPublishedDate super doc =
     or_else (or_else
       (getMetaContent doc ''meta[name="citation_publication_date"]'')
       (getMetaContent doc ''meta[name="citation_date"]''))
       (extractPublishedDate super doc)\<close>

definition ACL_extractDoi :: "MetadataExtractor \<Rightarrow> document \<Rightarrow> string" where
  \<open>ACL_extractDoi super doc =
     or_else
       (getMetaContent doc ''meta[name="citation_doi"]'')
       (extractDoi super doc)\<close>

definition ACL_extractJournalName :: "MetadataExtractor \<Rightarrow> document \<Rightarrow> string" where
  \<open>ACL_extractJournalName super doc =
     or_else (or_else
       (getMetaContent doc ''meta[name="citation_conference_title"]'')
       (getMetaContent doc ''meta[name="citation_journal_title"]''))
       (extractJournalName super doc)\<close>

definition ACL_extractTags :: "MetadataExtractor \<Rightarrow> document \<Rightarrow> string list" where
  \<open>ACL_extractTags super doc =
     (let keywords =
            or_else
              (getMetaContent doc ''meta[name="citation_keywords"]'')
              (getMetaContent doc ''meta[name="keywords"]'')
      in if keywords \<noteq> [] then split_tags keywords
         else extractTags super doc)\<close>

section \<open>The registry\<close>

text \<open>
  The declaration of \<^verbatim>\<open>SourceIntegration\<close> (\<^verbatim>\<open>types.ts\<close>) and ten of the eighteen
  registered integrations are not among the sources, so the registry list
  \<^verbatim>\<open>sourceIntegrations\<close> is a parameter of the registry functions. The record has the
  fields the registry reads, \<^verbatim>\<open>id\<close> and \<^verbatim>\<open>contentScriptMatches\<close>, and the display name.
\<close>

record SourceIntegration =
  id' :: string
  name :: string
  contentScriptMatches :: "string list"

text \<open>\<^verbatim>\<open>Array.prototype.find\<close>: the first element the predicate accepts, else \<^verbatim>\<open>undefined\<close>.\<close>

fun array_find :: "('a \<Rightarrow> bool) \<Rightarrow> 'a list \<Rightarrow> 'a option" where
  "array_find P [] = None"
| "array_find P (x # xs) = (if P x then Some x else array_find P xs)"

text \<open>\<^verbatim>\<open>Array.prototype.flatMap\<close> with a callback that returns an array.\<close>

fun flatMap :: "('a \<Rightarrow> 'b list) \<Rightarrow> 'a list \<Rightarrow> 'b list" where
  "flatMap f [] = []"
| "flatMap f (x # xs) = f x @ flatMap f xs"

definition getAllIntegrations :: "SourceIntegration list \<Rightarrow> SourceIntegration list" where
  "getAllIntegrations sourceIntegrations = sourceIntegrations"

definition getIntegrationById :: "SourceIntegration list \<Rightarrow> string \<Rightarrow> SourceIntegration option" where
  "getIntegrationById sourceIntegrations i =
     array_find (\<lambda>integration. id' integration = i) sourceIntegrations"

definition getAllContentScriptMatches :: "SourceIntegration list \<Rightarrow> string list" where
  "getAllContentScriptMatches sourceIntegrations =
     flatMap (\<lambda>integration. contentScriptMatches integration) sourceIntegrations"

section \<open>Notions for stating the properties\<close>

text \<open>The match state after a run of characters has been consumed.\<close>

definition feeds :: "string \<Rightarrow> mstate \<Rightarrow> mstate" where
  "feeds w st = st\<lparr>whole := whole st @ w, cur := map_option (\<lambda>g. g @ w) (cur st)\<rparr>"

text \<open>
  What extracting from a list of patterns has to do, in the words of the specification: when
  no pattern matches the URL the result is none; when the pattern at position \<open>k\<close> matches and
  none before it does, the result is made of that match's \<open>n\<close> capture groups by \<open>fmt\<close>.
\<close>

definition returns_first_match ::
  "(string \<Rightarrow> string option) \<Rightarrow> pattern list \<Rightarrow> nat \<Rightarrow> (string list \<Rightarrow> string) \<Rightarrow> bool" where
  "returns_first_match extract ps n fmt \<longleftrightarrow>
     (\<forall>url. (\<forall>p\<in>set ps. js_match url p = None) \<longrightarrow> extract url = None) \<and>
     (\<forall>url k m. k < length ps \<and> js_match url (ps ! k) = Some m \<and>
         (\<forall>j<k. js_match url (ps ! j) = None)
        \<longrightarrow> length m = Suc n \<and> extract url = Some (fmt m))"

text \<open>
  Putting the pieces of a split back together, with the separator characters that stood
  between them.
\<close>

fun interleave :: "string list \<Rightarrow> string \<Rightarrow> string" where
  "interleave [] seps = []"
| "interleave (p # ps) [] = p"
| "interleave (p # ps) (c # cs) = p @ c # interleave ps cs"

text \<open>
  The page carries a meta tag for the selector with the non-empty value \<open>v\<close>: the first
  element the selector finds has \<open>v\<close> as its \<^verbatim>\<open>content\<close>.
\<close>

definition has_meta :: "document \<Rightarrow> selector \<Rightarrow> string \<Rightarrow> bool" where
  "has_meta doc sel v =
     (case querySelectorAll doc sel of
        [] \<Rightarrow> False
      | el # _ \<Rightarrow> getAttribute el ''content'' = Some v \<and> v \<noteq> [])"

text \<open>
  The accessor prefers the tags of the list, in the order of the list, to anything else the
  page or the inherited method offers: on every page that carries one of them, with a
  non-empty value \<open>v\<close>, and none of those before it in the list, the accessor returns what
  \<open>f\<close> makes of \<open>v\<close>, for every base extractor.
\<close>

definition prefers_tags ::
  "(MetadataExtractor \<Rightarrow> document \<Rightarrow> 'r) \<Rightarrow> (string \<Rightarrow> 'r) \<Rightarrow> selector list \<Rightarrow> bool" where
  "prefers_tags accessor f sels \<longleftrightarrow>
     (\<forall>super doc before sel after v.
        sels = before @ sel # after \<and> (\<forall>s\<in>set before. getMetaContent doc s = []) \<and>
        has_meta doc sel v
        \<longrightarrow> accessor super doc = f v)"

text \<open>
  The same for the author tags, of which a page carries one per author: the accessor returns
  the non-empty values of all elements of the first selector of the list that has any,
  joined with a comma and a space.
\<close>

definition prefers_author_tags ::
  "(MetadataExtractor \<Rightarrow> document \<Rightarrow> string) \<Rightarrow> selector list \<Rightarrow> bool" where
  "prefers_author_tags accessor sels \<longleftrightarrow>
     (\<forall>super doc before sel after.
        sels = before @ sel # after \<and>
        (\<forall>s\<in>set before. push_contents (querySelectorAll doc s) = []) \<and>
        push_contents (querySelectorAll doc sel) \<noteq> []
        \<longrightarrow> accessor super doc = join '', '' (push_contents (querySelectorAll doc sel)))"

text \<open>The first non-empty reading among the selectors of a list, empty when there is none.\<close>

fun first_nonempty :: "(selector \<Rightarrow> 'v list) \<Rightarrow> selector list \<Rightarrow> 'v list" where
  "first_nonempty rd [] = []"
| "first_nonempty rd (sel # sels) = (if rd sel \<noteq> [] then rd sel else first_nonempty rd sels)"

text \<open>Every selector that one of the eight extractors hands to the document.\<close>

definition relevant_selectors :: "selector list" where
  \<open>relevant_selectors =
    [ ''meta[name="citation_title"]'', ''meta[property="og:title"]'', ''meta[name="DC.Title"]'',
      ''meta[name="dc.Title"]'', ''meta[name="dc.title"]'', ''meta[name="citation_author"]'',
      ''meta[name="dc.creator"]'', ''.author a, .author span'', ''.author a, #authors b'',
      ''.authors-info .author span'', ''meta[name="citation_abstract"]'',
      ''meta[name="dc.description"]'', ''meta[name="description"]'',
      ''meta[property="og:description"]'', ''.abstract'', ''#abstract'', ''.abstract-text'',
      ''meta[name="citation_publication_date"]'', ''meta[name="citation_online_date"]'',
      ''meta[name="citation_date"]'', ''meta[name="DC.Date"]'', ''meta[name="dc.Date"]'',
      ''meta[name="dc.date"]'', ''meta[name="citation_doi"]'', ''meta[name="DC.Identifier"]'',
      ''meta[name="dc.Identifier"]'', ''meta[name="dc.identifier"]'',
      ''meta[name="citation_journal_title"]'', ''meta[name="citation_conference_title"]'',
      ''meta[name="dc.Source"]'', ''meta[name="prism.publicationName"]'',
      ''meta[name="citation_keywords"]'', ''meta[name="keywords"]'', ''.keywords .keyword'' ]\<close>

definition no_relevant_targets :: "document \<Rightarrow> bool" where
  "no_relevant_targets doc = (\<forall>sel\<in>set relevant_selectors. querySelectorAll doc sel = [])"

text \<open>The inherited methods find nothing on the page either.\<close>

definition super_finds_nothing :: "MetadataExtractor \<Rightarrow> document \<Rightarrow> bool" where
  "super_finds_nothing super doc \<longleftrightarrow>
     extractTitle super doc = [] \<and> extractAuthors super doc = [] \<and>
     extractDescription super doc = [] \<and> extractPublishedDate super doc = [] \<and>
     extractDoi super doc = [] \<and> extractJournalName super doc = [] \<and>
     extractTags super doc = []"

section \<open>Sample pages and a sample registry\<close>

definition meta_tag :: "string \<Rightarrow> element" where
  "meta_tag v = \<lparr>getAttribute = [''content'' \<mapsto> v], textContent = Some []\<rparr>"

definition page :: "(selector \<times> element list) list \<Rightarrow> document" where
  "page tbl = \<lparr>querySelectorAll = (\<lambda>sel. case map_of tbl sel of None \<Rightarrow> [] | Some els \<Rightarrow> els)\<rparr>"

definition empty_page :: document where
  "empty_page = page []"

text \<open>
  Modelled from the spec: a base extractor whose every accessor finds nothing, as the spec
  has the base do on a page without data (``absence of data yields an empty string/list'').
\<close>

definition silent_base :: MetadataExtractor where
  "silent_base =
     \<lparr>extractTitle = (\<lambda>doc. []), extractAuthors = (\<lambda>doc. []), extractDescription = (\<lambda>doc. []),
      extractPublishedDate = (\<lambda>doc. []), extractDoi = (\<lambda>doc. []),
      extractJournalName = (\<lambda>doc. []), extractTags = (\<lambda>doc. [])\<rparr>"

definition page_all_titles :: document where
  \<open>page_all_titles = page
    [ (''meta[name="citation_title"]'', [meta_tag ''Citation title'']),
      (''meta[name="DC.Title"]'', [meta_tag ''Dublin Core title'']),
      (''meta[property="og:title"]'', [meta_tag ''Open Graph title'']) ]\<close>

definition page_dc_og_titles :: document where
  \<open>page_dc_og_titles = page
    [ (''meta[name="DC.Title"]'', [meta_tag ''Dublin Core title'']),
      (''meta[property="og:title"]'', [meta_tag ''Open Graph title'']) ]\<close>

definition page_acm_dc_og_titles :: document where
  \<open>page_acm_dc_og_titles = page
    [ (''meta[name="dc.Title"]'', [meta_tag ''Dublin Core title'']),
      (''meta[property="og:title"]'', [meta_tag ''Open Graph title'']) ]\<close>

definition page_dc_identifier :: document where
  \<open>page_dc_identifier = page
    [ (''meta[name="DC.Identifier"]'', [meta_tag ''10.1101/2021.01.01.000001'']) ]\<close>

definition page_keywords :: document where
  \<open>page_keywords = page
    [ (''meta[name="keywords"]'', [meta_tag ''deep learning; vision ,, optics '']) ]\<close>

definition sample_registry :: "SourceIntegration list" where
  "sample_registry =
    [ \<lparr>id' = ''springer'', name = ''Springer'',
        contentScriptMatches = [''*://link.springer.com/article/*'', ''*://link.springer.com/chapter/*'']\<rparr>,
      \<lparr>id' = ''ieee'', name = ''IEEE Xplore'', contentScriptMatches = []\<rparr>,
      \<lparr>id' = ''acm'', name = ''ACM Digital Library'',
        contentScriptMatches = [''*://dl.acm.org/doi/*'']\<rparr> ]"

section \<open>Facts about the matcher\<close>

lemma lit_Nil: "lit [] = []"
  by (simp add: lit_def)

lemma lit_Cons: "lit (x # w) = One (Atom (Ch x)) # lit w"
  by (simp add: lit_def)

lemma count_list_lit: "count_list (lit w) GroupClose = 0"
  by (induction w) (simp_all add: lit_Nil lit_Cons)

lemma feeds_Nil: "feeds [] st = st"
  by (cases "cur st") (simp_all add: feeds_def option.map_ident)

lemma feeds_Cons: "feeds (x # w) st = feeds w (feed x st)"
  by (simp add: feeds_def feed_def option.map_comp comp_def)

text \<open>A greedy quantifier that meets no character of its class moves on.\<close>

lemma run_many0_stop:
  "s = [] \<or> \<not> cset_has c (hd s) \<Longrightarrow> run (Many0 c # p) s st = run p s st"
  by (cases s) auto

text \<open>
  A greedy quantifier takes a whole run of characters of its class when the run ends at a
  character outside the class (or at the end of the input) and the rest of the pattern then
  matches: the first branch of the backtracking succeeds.
\<close>

lemma run_many0_span:
  assumes "\<forall>x\<in>set ds. cset_has c x" and "s = [] \<or> \<not> cset_has c (hd s)"
    and "run p s (feeds ds st) = Some r"
  shows "run (Many0 c # p) (ds @ s) st = Some r"
  using assms
proof (induction ds arbitrary: st)
  case Nil
  then show ?case by (simp add: run_many0_stop feeds_Nil)
next
  case (Cons d ds)
  then show ?case by (simp add: feeds_Cons)
qed

lemma run_many1_span:
  assumes "\<forall>x\<in>set ds. cset_has c x" and "ds \<noteq> []" and "s = [] \<or> \<not> cset_has c (hd s)"
    and "run p s (feeds ds st) = Some r"
  shows "run (Many1 c # p) (ds @ s) st = Some r"
proof (cases ds)
  case Nil
  with assms show ?thesis by simp
next
  case (Cons d ds')
  with assms have "run (Many0 c # p) (ds' @ s) (feed d st) = Some r"
    by (intro run_many0_span) (simp_all add: feeds_Cons)
  with Cons assms show ?thesis by simp
qed

lemma run_many0_last: "run [Many0 c] s st = Some (feeds (takeWhile (cset_has c) s) st)"
  by (induction s arbitrary: st) (simp_all add: feeds_Nil feeds_Cons)

text \<open>Every successful run closes each group of the pattern once.\<close>

lemma run_groups_length:
  "run p s st = Some r \<Longrightarrow> length (groups r) = length (groups st) + count_list p GroupClose"
  by (induction p s st rule: run.induct)
     (auto simp: feed_def open_group_def close_group_def split: if_splits option.splits)

lemma js_match_length:
  "js_match url p = Some m \<Longrightarrow> length m = Suc (count_list p GroupClose)"
  by (induction url)
     (auto simp: match_array_def start_def dest!: run_groups_length split: option.splits)

lemma js_match_here:
  "run p s start = Some r \<Longrightarrow> js_match s p = Some (match_array r)"
  by (cases s) simp_all

text \<open>No match can begin inside a prefix that lacks the pattern's first character.\<close>

lemma js_match_skip:
  "c \<notin> set pre \<Longrightarrow>
   js_match (pre @ s) (One (Atom (Ch c)) # p) = js_match s (One (Atom (Ch c)) # p)"
  by (induction pre) auto

section \<open>Facts about the extraction loop\<close>

lemma for_patterns_none:
  "\<forall>p\<in>set ps. js_match url p = None \<Longrightarrow> for_patterns ret ps url = None"
  by (induction ps) simp_all

lemma for_patterns_first:
  "k < length ps \<Longrightarrow> js_match url (ps ! k) = Some m \<Longrightarrow> \<forall>j<k. js_match url (ps ! j) = None
   \<Longrightarrow> for_patterns ret ps url = ret m"
proof (induction ps arbitrary: k)
  case Nil
  then show ?case by simp
next
  case (Cons p ps)
  show ?case
  proof (cases k)
    case 0
    with Cons.prems show ?thesis by simp
  next
    case (Suc k')
    from Cons.prems Suc have "js_match url p = None" by auto
    moreover from Cons.prems Suc have "for_patterns ret ps url = ret m"
      by (intro Cons.IH[of k']) auto
    ultimately show ?thesis by simp
  qed
qed

lemma returns_first_match_loop:
  assumes n: "\<forall>p\<in>set ps. count_list p GroupClose = n"
    and ret: "\<And>m. length m = Suc n \<Longrightarrow> ret m = Some (fmt m)"
  shows "returns_first_match (for_patterns ret ps) ps n fmt"
  unfolding returns_first_match_def
proof (intro conjI allI impI)
  fix url
  assume "\<forall>p\<in>set ps. js_match url p = None"
  then show "for_patterns ret ps url = None" by (rule for_patterns_none)
next
  fix url k m
  assume h: "k < length ps \<and> js_match url (ps ! k) = Some m \<and>
    (\<forall>j<k. js_match url (ps ! j) = None)"
  then have k: "k < length ps" and m: "js_match url (ps ! k) = Some m"
    and before: "\<forall>j<k. js_match url (ps ! j) = None"
    by simp_all
  from m have "length m = Suc (count_list (ps ! k) GroupClose)" by (rule js_match_length)
  with k n show len: "length m = Suc n" by simp
  from k m before have "for_patterns ret ps url = ret m" by (rule for_patterns_first)
  with len show "for_patterns ret ps url = Some (fmt m)" by (simp add: ret)
qed

lemma ret_group1: "length m = Suc 1 \<Longrightarrow> ret_group1 m = Some (m ! 1)"
  by (simp add: ret_group1_def group_def)

lemma NeurIPS_ret: "length m = Suc 2 \<Longrightarrow> NeurIPS_ret m = Some (m ! 1 @ ''-'' @ m ! 2)"
  by (simp add: NeurIPS_ret_def group_def template_def)

lemma CVF_ret:
  "length m = Suc 3 \<Longrightarrow> CVF_ret m = Some (m ! 1 @ ''-'' @ m ! 2 @ ''-'' @ m ! 3)"
  by (simp add: CVF_ret_def group_def template_def)

section \<open>Properties of the paper identifiers\<close>

text \<open>
  C1. In each of the eight integrations, \<^verbatim>\<open>extractPaperId\<close> goes through \<^verbatim>\<open>urlPatterns\<close> in
  declared order and returns the capture group(s) of the first pattern that matches the URL:
  the one group where the pattern has one, year and hash joined with \<open>-\<close> for NeurIPS,
  conference, year and slug joined with \<open>-\<close> for CVF. It returns none when no pattern matches.
\<close>

theorem extractPaperId_first_match:
  "returns_first_match MedRxiv_extractPaperId MedRxiv_urlPatterns 1 (\<lambda>m. m ! 1) \<and>
   returns_first_match NeurIPS_extractPaperId NeurIPS_urlPatterns 2 (\<lambda>m. m ! 1 @ ''-'' @ m ! 2) \<and>
   returns_first_match ACM_extractPaperId ACM_urlPatterns 1 (\<lambda>m. m ! 1) \<and>
   returns_first_match SSRN_extractPaperId SSRN_urlPatterns 1 (\<lambda>m. m ! 1) \<and>
   returns_first_match CVF_extractPaperId CVF_urlPatterns 3
     (\<lambda>m. m ! 1 @ ''-'' @ m ! 2 @ ''-'' @ m ! 3) \<and>
   returns_first_match Springer_extractPaperId Springer_urlPatterns 1 (\<lambda>m. m ! 1) \<and>
   returns_first_match IEEE_extractPaperId IEEE_urlPatterns 1 (\<lambda>m. m ! 1) \<and>
   returns_first_match ACL_extractPaperId ACL_urlPatterns 1 (\<lambda>m. m ! 1)"
proof -
  have medrxiv: "MedRxiv_extractPaperId = for_patterns ret_group1 MedRxiv_urlPatterns"
    and neurips: "NeurIPS_extractPaperId = for_patterns NeurIPS_ret NeurIPS_urlPatterns"
    and acm: "ACM_extractPaperId = for_patterns ret_group1 ACM_urlPatterns"
    and ssrn: "SSRN_extractPaperId = for_patterns ret_group1 SSRN_urlPatterns"
    and cvf: "CVF_extractPaperId = for_patterns CVF_ret CVF_urlPatterns"
    and springer: "Springer_extractPaperId = for_patterns ret_group1 Springer_urlPatterns"
    and ieee: "IEEE_extractPaperId = for_patterns ret_group1 IEEE_urlPatterns"
    and acl: "ACL_extractPaperId = for_patterns ret_group1 ACL_urlPatterns"
    by (simp_all add: fun_eq_iff MedRxiv_extractPaperId_def NeurIPS_extractPaperId_def
        ACM_extractPaperId_def SSRN_extractPaperId_def CVF_extractPaperId_def
        Springer_extractPaperId_def IEEE_extractPaperId_def ACL_extractPaperId_def)
  have "returns_first_match (for_patterns ret_group1 MedRxiv_urlPatterns) MedRxiv_urlPatterns 1
          (\<lambda>m. m ! 1)"
    by (rule returns_first_match_loop)
       (simp_all add: MedRxiv_urlPatterns_def count_list_lit ret_group1)
  moreover have "returns_first_match (for_patterns NeurIPS_ret NeurIPS_urlPatterns)
          NeurIPS_urlPatterns 2 (\<lambda>m. m ! 1 @ ''-'' @ m ! 2)"
    by (rule returns_first_match_loop)
       (simp_all add: NeurIPS_urlPatterns_def count_list_lit NeurIPS_ret)
  moreover have "returns_first_match (for_patterns ret_group1 ACM_urlPatterns) ACM_urlPatterns 1
          (\<lambda>m. m ! 1)"
    by (rule returns_first_match_loop)
       (simp_all add: ACM_urlPatterns_def count_list_lit ret_group1)
  moreover have "returns_first_match (for_patterns ret_group1 SSRN_urlPatterns) SSRN_urlPatterns 1
          (\<lambda>m. m ! 1)"
    by (rule returns_first_match_loop)
       (simp_all add: SSRN_urlPatterns_def count_list_lit ret_group1)
  moreover have "returns_first_match (for_patterns CVF_ret CVF_urlPatterns) CVF_urlPatterns 3
          (\<lambda>m. m ! 1 @ ''-'' @ m ! 2 @ ''-'' @ m ! 3)"
    by (rule returns_first_match_loop)
       (simp_all add: CVF_urlPatterns_def count_list_lit CVF_ret)
  moreover have "returns_first_match (for_patterns ret_group1 Springer_urlPatterns)
          Springer_urlPatterns 1 (\<lambda>m. m ! 1)"
    by (rule returns_first_match_loop)
       (simp_all add: Springer_urlPatterns_def count_list_lit ret_group1)
  moreover have "returns_first_match (for_patterns ret_group1 IEEE_urlPatterns) IEEE_urlPatterns 1
          (\<lambda>m. m ! 1)"
    by (rule returns_first_match_loop)
       (simp_all add: IEEE_urlPatterns_def count_list_lit ret_group1)
  moreover have "returns_first_match (for_patterns ret_group1 ACL_urlPatterns) ACL_urlPatterns 1
          (\<lambda>m. m ! 1)"
    by (rule returns_first_match_loop)
       (simp_all add: ACL_urlPatterns_def count_list_lit ret_group1)
  ultimately show ?thesis
    by (simp only: medrxiv neurips acm ssrn cvf springer ieee acl simp_thms)
qed

theorem extractPaperId_first_match_witness:
  "js_match ''https://proceedings.neurips.cc/paper/2020/hash/1457c0d6-Abstract.html''
     (NeurIPS_urlPatterns ! 0) = None \<and>
   js_match ''https://proceedings.neurips.cc/paper/2020/hash/1457c0d6-Abstract.html''
     (NeurIPS_urlPatterns ! 1) = None \<and>
   js_match ''https://proceedings.neurips.cc/paper/2020/hash/1457c0d6-Abstract.html''
     (NeurIPS_urlPatterns ! 2)
     = Some [''proceedings.neurips.cc/paper/2020/hash/1457c0d6'', ''2020'', ''1457c0d6''] \<and>
   NeurIPS_extractPaperId ''https://proceedings.neurips.cc/paper/2020/hash/1457c0d6-Abstract.html''
     = Some ''2020-1457c0d6'' \<and>
   list_all (\<lambda>p. js_match ''https://example.org/paper/2020'' p = None) NeurIPS_urlPatterns \<and>
   NeurIPS_extractPaperId ''https://example.org/paper/2020'' = None"
proof -
  let ?url = "''https://proceedings.neurips.cc/paper/2020/hash/1457c0d6-Abstract.html''"
  let ?m = "[''proceedings.neurips.cc/paper/2020/hash/1457c0d6'', ''2020'', ''1457c0d6'']"
  have spec: "returns_first_match NeurIPS_extractPaperId NeurIPS_urlPatterns 2
      (\<lambda>m. m ! 1 @ ''-'' @ m ! 2)"
    using extractPaperId_first_match by simp
  have p0: "js_match ?url (NeurIPS_urlPatterns ! 0) = None" by code_simp
  have p1: "js_match ?url (NeurIPS_urlPatterns ! 1) = None" by code_simp
  have p2: "js_match ?url (NeurIPS_urlPatterns ! 2) = Some ?m" by code_simp
  have len: "2 < length NeurIPS_urlPatterns" by (simp add: NeurIPS_urlPatterns_def)
  have before: "\<forall>j<2. js_match ?url (NeurIPS_urlPatterns ! j) = None"
  proof (intro allI impI)
    fix j :: nat
    assume "j < 2"
    then consider "j = 0" | "j = 1" by arith
    then show "js_match ?url (NeurIPS_urlPatterns ! j) = None"
    proof cases
      case 1
      then show ?thesis by (simp only: p0)
    next
      case 2
      then show ?thesis by (simp only: p1)
    qed
  qed
  from spec len p2 before have "NeurIPS_extractPaperId ?url = Some (?m ! 1 @ ''-'' @ ?m ! 2)"
    unfolding returns_first_match_def by blast
  then have hit: "NeurIPS_extractPaperId ?url = Some ''2020-1457c0d6''" by simp
  have none: "list_all (\<lambda>p. js_match ''https://example.org/paper/2020'' p = None)
      NeurIPS_urlPatterns"
    by code_simp
  then have "\<forall>p\<in>set NeurIPS_urlPatterns. js_match ''https://example.org/paper/2020'' p = None"
    by (simp only: list_all_iff)
  with spec have miss: "NeurIPS_extractPaperId ''https://example.org/paper/2020'' = None"
    unfolding returns_first_match_def by blast
  from p0 p1 p2 hit none miss show ?thesis by (intro conjI)
qed

text \<open>
  C2. A medRxiv content URL that carries a DOI \<open>10.<digits>/<suffix>\<close> followed by the version
  marker \<open>v\<close> yields the bare DOI, without the marker and whatever follows it. The suffix is
  any non-empty text without \<open>v\<close>, white space or \<open>?\<close> (medRxiv suffixes are digits and dots);
  what precedes the host name is any text without the letter \<open>m\<close>, such as \<open>https://www.\<close>.
\<close>

theorem MedRxiv_extractPaperId_drops_version:
  assumes pre: "CHR ''m'' \<notin> set pre"
    and ds: "ds \<noteq> []" "\<forall>x\<in>set ds. is_digit x"
    and sfx: "sfx \<noteq> []" "\<forall>x\<in>set sfx. x \<noteq> CHR ''v'' \<and> \<not> is_space x \<and> x \<noteq> CHR ''?''"
  shows "MedRxiv_extractPaperId
           (pre @ ''medrxiv.org/content/'' @ ''10.'' @ ds @ ''/'' @ sfx @ ''v'' @ rest)
         = Some (''10.'' @ ds @ ''/'' @ sfx)"
proof -
  let ?p = "MedRxiv_urlPatterns ! 0"
  let ?s = "''medrxiv.org/content/'' @ ''10.'' @ ds @ ''/'' @ sfx @ ''v'' @ rest"
  define st1 where "st1 = feeds ''10.'' (open_group (feeds ''medrxiv.org/content/'' start))"
  define st2 where "st2 = feeds ''/'' (feeds ds st1)"
  define st3 where "st3 = close_group (feeds sfx st2)"
  define st4 where "st4 = feeds (takeWhile (cset_has (Atom Digit)) rest) (feed (CHR ''v'') st3)"
  have tail: "run [GroupClose, Maybe (Atom (Ch (CHR ''v''))), Many0 (Atom Digit)] (''v'' @ rest)
      (feeds sfx st2) = Some st4"
    by (simp add: run_many0_last st3_def st4_def)
  have e3: "run [Many1 (NoneOf [Ch (CHR ''v''), Space, Ch (CHR ''?'')]), GroupClose,
      Maybe (Atom (Ch (CHR ''v''))), Many0 (Atom Digit)] (sfx @ ''v'' @ rest) st2 = Some st4"
    using sfx tail by (intro run_many1_span) simp_all
  have e2: "run (digits1 # lit ''/'' @ [Many1 (NoneOf [Ch (CHR ''v''), Space, Ch (CHR ''?'')]),
      GroupClose, Maybe (Atom (Ch (CHR ''v''))), Many0 (Atom Digit)])
      (ds @ ''/'' @ sfx @ ''v'' @ rest) st1 = Some st4"
    using ds e3
    by (intro run_many1_span) (simp_all add: lit_Nil lit_Cons st2_def is_digit_def feeds_Cons feeds_Nil)
  have "run ?p ?s start = run (digits1 # lit ''/''
      @ [Many1 (NoneOf [Ch (CHR ''v''), Space, Ch (CHR ''?'')]),
      GroupClose, Maybe (Atom (Ch (CHR ''v''))), Many0 (Atom Digit)])
      (ds @ ''/'' @ sfx @ ''v'' @ rest) st1"
    unfolding MedRxiv_urlPatterns_def st1_def
    by (simp add: lit_Nil lit_Cons feeds_Cons feeds_Nil)
  with e2 have "run ?p ?s start = Some st4" by simp
  then have "js_match ?s ?p = Some (match_array st4)" by (rule js_match_here)
  moreover have "js_match (pre @ ?s) ?p = js_match ?s ?p"
    using pre unfolding MedRxiv_urlPatterns_def
    by (simp add: lit_Cons js_match_skip del: js_match.simps)
  moreover have "groups st4 = [''10.'' @ ds @ ''/'' @ sfx]"
    by (simp add: st4_def st3_def st2_def st1_def feeds_def feed_def close_group_def
        open_group_def start_def)
  ultimately have "js_match (pre @ ?s) ?p = Some (whole st4 # [''10.'' @ ds @ ''/'' @ sfx])"
    by (simp add: match_array_def)
  then show ?thesis
    by (simp add: MedRxiv_extractPaperId_def MedRxiv_urlPatterns_def ret_group1_def group_def
        del: js_match.simps)
qed

theorem MedRxiv_extractPaperId_drops_version_witness:
  "CHR ''m'' \<notin> set ''https://www.'' \<and> list_all is_digit ''1101'' \<and>
   list_all (\<lambda>x. x \<noteq> CHR ''v'' \<and> \<not> is_space x \<and> x \<noteq> CHR ''?'') ''2021.01.01.000001'' \<and>
   MedRxiv_extractPaperId ''https://www.medrxiv.org/content/10.1101/2021.01.01.000001v2''
     = Some ''10.1101/2021.01.01.000001''"
proof -
  have pre: "CHR ''m'' \<notin> set ''https://www.''" by simp
  have ds: "\<forall>x\<in>set ''1101''. is_digit x" by (simp add: is_digit_def)
  have sfx: "\<forall>x\<in>set ''2021.01.01.000001''. x \<noteq> CHR ''v'' \<and> \<not> is_space x \<and> x \<noteq> CHR ''?''"
    by (simp add: is_space_def)
  have "MedRxiv_extractPaperId
      (''https://www.'' @ ''medrxiv.org/content/'' @ ''10.'' @ ''1101'' @ ''/''
        @ ''2021.01.01.000001'' @ ''v'' @ ''2'')
      = Some (''10.'' @ ''1101'' @ ''/'' @ ''2021.01.01.000001'')"
    using pre ds sfx by (intro MedRxiv_extractPaperId_drops_version) simp_all
  then have "MedRxiv_extractPaperId ''https://www.medrxiv.org/content/10.1101/2021.01.01.000001v2''
      = Some ''10.1101/2021.01.01.000001''"
    by simp
  with pre ds sfx show ?thesis by (simp only: list_all_iff simp_thms)
qed

text \<open>
  C10, as the code has it. For an ACM URL \<open>dl.acm.org/doi/10.<digits>/<suffix>\<close> whose
  suffix begins with at least one digit and goes on with a character that is not a digit, the
  result is the truncated identifier: the prefix, the slash and the leading digits of the
  suffix. What precedes the host name is any text without the letter \<open>d\<close>, such as
  \<open>https://\<close>.
\<close>

theorem ACM_extractPaperId_truncates:
  assumes pre: "CHR ''d'' \<notin> set pre"
    and d1: "ds1 \<noteq> []" "\<forall>x\<in>set ds1. is_digit x"
    and d2: "ds2 \<noteq> []" "\<forall>x\<in>set ds2. is_digit x"
    and c: "\<not> is_digit c"
  shows "ACM_extractPaperId (pre @ ''dl.acm.org/doi/'' @ ''10.'' @ ds1 @ ''/'' @ ds2 @ c # rest)
         = Some (''10.'' @ ds1 @ ''/'' @ ds2)"
proof -
  let ?p = "ACM_urlPatterns ! 0"
  let ?s = "''dl.acm.org/doi/'' @ ''10.'' @ ds1 @ ''/'' @ ds2 @ c # rest"
  define st1 where "st1 = feeds ''10.'' (open_group (feeds ''dl.acm.org/doi/'' start))"
  define st2 where "st2 = feeds ''/'' (feeds ds1 st1)"
  define st3 where "st3 = close_group (feeds ds2 st2)"
  have e3: "run [digits1, GroupClose] (ds2 @ c # rest) st2 = Some st3"
    using d2 c by (intro run_many1_span) (simp_all add: st3_def)
  have e2: "run (digits1 # lit ''/'' @ [digits1, GroupClose]) (ds1 @ ''/'' @ ds2 @ c # rest) st1
      = Some st3"
    using d1 e3
    by (intro run_many1_span) (simp_all add: lit_Nil lit_Cons st2_def is_digit_def feeds_Cons feeds_Nil)
  have "run ?p ?s start
      = run (digits1 # lit ''/'' @ [digits1, GroupClose]) (ds1 @ ''/'' @ ds2 @ c # rest) st1"
    unfolding ACM_urlPatterns_def st1_def
    by (simp add: lit_Nil lit_Cons feeds_Cons feeds_Nil)
  with e2 have "run ?p ?s start = Some st3" by simp
  then have "js_match ?s ?p = Some (match_array st3)" by (rule js_match_here)
  moreover have "js_match (pre @ ?s) ?p = js_match ?s ?p"
    using pre unfolding ACM_urlPatterns_def
    by (simp add: lit_Cons js_match_skip del: js_match.simps)
  moreover have "groups st3 = [''10.'' @ ds1 @ ''/'' @ ds2]"
    by (simp add: st3_def st2_def st1_def feeds_def close_group_def open_group_def start_def)
  ultimately have "js_match (pre @ ?s) ?p = Some (whole st3 # [''10.'' @ ds1 @ ''/'' @ ds2])"
    by (simp add: match_array_def)
  then show ?thesis
    by (simp add: ACM_extractPaperId_def ACM_urlPatterns_def ret_group1_def group_def
        del: js_match.simps)
qed

theorem ACM_extractPaperId_truncates_witness:
  "CHR ''d'' \<notin> set ''https://'' \<and> list_all is_digit ''1145'' \<and> list_all is_digit ''3375627'' \<and>
   \<not> is_digit (CHR ''.'') \<and>
   ACM_extractPaperId ''https://dl.acm.org/doi/10.1145/3375627.3375820'' = Some ''10.1145/3375627''"
proof -
  have pre: "CHR ''d'' \<notin> set ''https://''" by simp
  have d1: "\<forall>x\<in>set ''1145''. is_digit x" by (simp add: is_digit_def)
  have d2: "\<forall>x\<in>set ''3375627''. is_digit x" by (simp add: is_digit_def)
  have c: "\<not> is_digit (CHR ''.'')" by (simp add: is_digit_def)
  have "ACM_extractPaperId
      (''https://'' @ ''dl.acm.org/doi/'' @ ''10.'' @ ''1145'' @ ''/'' @ ''3375627''
        @ CHR ''.'' # ''3375820'')
      = Some (''10.'' @ ''1145'' @ ''/'' @ ''3375627'')"
    using pre d1 d2 c by (intro ACM_extractPaperId_truncates) simp_all
  then have "ACM_extractPaperId ''https://dl.acm.org/doi/10.1145/3375627.3375820''
      = Some ''10.1145/3375627''"
    by simp
  with pre d1 d2 c show ?thesis by (simp only: list_all_iff simp_thms)
qed

text \<open>
  C10, as stated, fails where the suffix begins with a character that is not a digit: the
  first pattern then does not match at all, and the result is none, not a truncated
  identifier.
\<close>

theorem ACM_extractPaperId_counterexample:
  "ACM_extractPaperId ''https://dl.acm.org/doi/10.1109/ICSE.2019.00086'' = None"
  by code_simp

section \<open>Properties of the registry\<close>

lemma flatMap_concat: "flatMap f xs = concat (map f xs)"
  by (induction xs) simp_all

lemma concat_slice:
  assumes "k < length xss"
  shows "take (length (xss ! k)) (drop (sum_list (map length (take k xss))) (concat xss))
         = xss ! k"
proof -
  from assms have "xss = take k xss @ xss ! k # drop (Suc k) xss"
    by (rule id_take_nth_drop)
  then have "concat xss = concat (take k xss) @ xss ! k @ concat (drop (Suc k) xss)"
    by (metis concat.simps(2) concat_append)
  moreover have "sum_list (map length (take k xss)) = length (concat (take k xss))"
    by (simp add: length_concat)
  ultimately show ?thesis by simp
qed

text \<open>
  C6. \<^verbatim>\<open>getAllContentScriptMatches()\<close> is the concatenation, in registry order, of the
  integrations' content-script match patterns: its length is the sum of the lengths of the
  pattern lists, and the patterns of the integration at position \<open>k\<close> stand together in it,
  right after those of the integrations before it.
\<close>

theorem getAllContentScriptMatches_concat:
  "getAllContentScriptMatches regs = concat (map contentScriptMatches regs) \<and>
   length (getAllContentScriptMatches regs)
     = sum_list (map (\<lambda>i. length (contentScriptMatches i)) regs) \<and>
   (\<forall>k<length regs.
      take (length (contentScriptMatches (regs ! k)))
        (drop (sum_list (map (\<lambda>i. length (contentScriptMatches i)) (take k regs)))
           (getAllContentScriptMatches regs))
      = contentScriptMatches (regs ! k))"
proof (intro conjI allI impI)
  show eq: "getAllContentScriptMatches regs = concat (map contentScriptMatches regs)"
    by (simp add: getAllContentScriptMatches_def flatMap_concat)
  show "length (getAllContentScriptMatches regs)
     = sum_list (map (\<lambda>i. length (contentScriptMatches i)) regs)"
    by (simp add: eq length_concat comp_def)
  fix k
  assume k: "k < length regs"
  then have "take (length (map contentScriptMatches regs ! k))
      (drop (sum_list (map length (take k (map contentScriptMatches regs))))
        (concat (map contentScriptMatches regs)))
      = map contentScriptMatches regs ! k"
    by (intro concat_slice) simp
  with k show "take (length (contentScriptMatches (regs ! k)))
        (drop (sum_list (map (\<lambda>i. length (contentScriptMatches i)) (take k regs)))
           (getAllContentScriptMatches regs))
      = contentScriptMatches (regs ! k)"
    by (simp add: eq take_map comp_def)
qed

theorem getAllContentScriptMatches_concat_witness:
  "getAllContentScriptMatches sample_registry
     = [''*://link.springer.com/article/*'', ''*://link.springer.com/chapter/*'',
        ''*://dl.acm.org/doi/*''] \<and>
   length (getAllContentScriptMatches sample_registry) = 2 + 0 + 1 \<and>
   take 1 (drop 2 (getAllContentScriptMatches sample_registry))
     = contentScriptMatches (sample_registry ! 2)"
proof -
  note all = getAllContentScriptMatches_concat [of sample_registry, THEN conjunct1]
  note slice = getAllContentScriptMatches_concat [of sample_registry, THEN conjunct2, THEN conjunct2]
  have "(2::nat) < length sample_registry" by (simp add: sample_registry_def)
  with slice have "take (length (contentScriptMatches (sample_registry ! 2)))
        (drop (sum_list (map (\<lambda>i. length (contentScriptMatches i)) (take 2 sample_registry)))
           (getAllContentScriptMatches sample_registry))
      = contentScriptMatches (sample_registry ! 2)"
    by blast
  then have "take 1 (drop 2 (getAllContentScriptMatches sample_registry))
     = contentScriptMatches (sample_registry ! 2)"
    by (simp add: sample_registry_def numeral_2_eq_2)
  with all show ?thesis by (simp add: sample_registry_def)
qed

lemma array_find_None: "array_find P xs = None \<longleftrightarrow> (\<forall>x\<in>set xs. \<not> P x)"
  by (induction xs) simp_all

lemma array_find_Some: "array_find P xs = Some y \<Longrightarrow> y \<in> set xs \<and> P y"
  by (induction xs) (auto split: if_splits)

lemma array_find_first:
  "k < length xs \<Longrightarrow> P (xs ! k) \<Longrightarrow> \<forall>j<k. \<not> P (xs ! j) \<Longrightarrow> array_find P xs = Some (xs ! k)"
proof (induction xs arbitrary: k)
  case Nil
  then show ?case by simp
next
  case (Cons x xs)
  show ?case
  proof (cases k)
    case 0
    with Cons.prems show ?thesis by simp
  next
    case (Suc k')
    from Cons.prems Suc have "\<not> P x" by auto
    moreover from Cons.prems Suc have "array_find P xs = Some (xs ! k')"
      by (intro Cons.IH) auto
    ultimately show ?thesis using Suc by simp
  qed
qed

lemma array_find_unique:
  "distinct (map f xs) \<Longrightarrow> y \<in> set xs \<Longrightarrow> array_find (\<lambda>x. f x = f y) xs = Some y"
  by (induction xs) (auto simp: image_iff)

text \<open>
  C7. \<^verbatim>\<open>getIntegrationById\<close> returns none when no registered integration has the id;
  whatever it returns is a registered integration with that id; it returns the first
  integration of the list with that id, which is the only one when the ids of the registry
  are pairwise different.
\<close>

theorem getIntegrationById_spec:
  "((\<forall>i\<in>set regs. id' i \<noteq> x) \<longrightarrow> getIntegrationById regs x = None) \<and>
   (\<forall>i. getIntegrationById regs x = Some i \<longrightarrow> i \<in> set regs \<and> id' i = x) \<and>
   (\<forall>k<length regs. id' (regs ! k) = x \<and> (\<forall>j<k. id' (regs ! j) \<noteq> x)
      \<longrightarrow> getIntegrationById regs x = Some (regs ! k)) \<and>
   (distinct (map id' regs) \<longrightarrow>
      (\<forall>i\<in>set regs. id' i = x \<longrightarrow> getIntegrationById regs x = Some i))"
proof (intro conjI allI impI ballI)
  assume "\<forall>i\<in>set regs. id' i \<noteq> x"
  then show "getIntegrationById regs x = None"
    by (simp add: getIntegrationById_def array_find_None)
next
  fix i
  assume "getIntegrationById regs x = Some i"
  then have "i \<in> set regs \<and> id' i = x"
    unfolding getIntegrationById_def by (rule array_find_Some)
  then show "i \<in> set regs" and "id' i = x" by simp_all
next
  fix k
  assume "k < length regs" and "id' (regs ! k) = x \<and> (\<forall>j<k. id' (regs ! j) \<noteq> x)"
  then show "getIntegrationById regs x = Some (regs ! k)"
    unfolding getIntegrationById_def by (intro array_find_first) simp_all
next
  fix i
  assume "distinct (map id' regs)" and "i \<in> set regs" and "id' i = x"
  then show "getIntegrationById regs x = Some i"
    unfolding getIntegrationById_def using array_find_unique [of id' regs i] by simp
qed

theorem getIntegrationById_spec_witness:
  "list_all (\<lambda>i. id' i \<noteq> ''arxiv'') sample_registry \<and>
   getIntegrationById sample_registry ''arxiv'' = None \<and>
   distinct (map id' sample_registry) \<and>
   id' (sample_registry ! 2) = ''acm'' \<and>
   getIntegrationById sample_registry ''acm'' = Some (sample_registry ! 2)"
proof -
  have absent: "\<forall>i\<in>set sample_registry. id' i \<noteq> ''arxiv''"
    by (simp add: sample_registry_def)
  have dist: "distinct (map id' sample_registry)"
    by (simp add: sample_registry_def)
  have mem: "sample_registry ! 2 \<in> set sample_registry"
    by (simp add: sample_registry_def)
  have acm: "id' (sample_registry ! 2) = ''acm''"
    by (simp add: sample_registry_def)
  from absent have none: "getIntegrationById sample_registry ''arxiv'' = None"
    using getIntegrationById_spec [of sample_registry "''arxiv''"] by blast
  from dist mem acm have "getIntegrationById sample_registry ''acm'' = Some (sample_registry ! 2)"
    using getIntegrationById_spec [of sample_registry "''acm''"] by blast
  with absent none dist acm show ?thesis by (simp only: list_all_iff simp_thms)
qed

section \<open>Facts about the string primitives\<close>

lemma or_else_Nil: "or_else [] b = b"
  by (simp add: or_else_def)

lemma or_else_value: "a \<noteq> [] \<Longrightarrow> or_else a b = a"
  by (simp add: or_else_def)

lemma interleave_Cons_append: "interleave ((w @ p) # ps) seps = w @ interleave (p # ps) seps"
  by (cases seps) simp_all

lemma split_from_Cons: "\<exists>p ps. split_from P piece s = (piece @ p) # ps"
proof (induction s arbitrary: piece)
  case Nil
  then show ?case by simp
next
  case (Cons x xs)
  from Cons [of "piece @ [x]"] show ?case by auto
qed

text \<open>Splitting cuts at every separator and nowhere else.\<close>

lemma interleave_split_from: "interleave (split_from P piece s) (filter P s) = piece @ s"
proof (induction s arbitrary: piece)
  case Nil
  then show ?case by simp
next
  case (Cons x xs)
  then show ?case by simp
qed

lemma interleave_split_on: "interleave (split_on P s) (filter P s) = s"
  by (simp add: split_on_def interleave_split_from)

lemma split_from_pieces:
  "p \<in> set (split_from P piece s) \<Longrightarrow> c \<in> set p \<Longrightarrow> c \<in> set piece \<or> \<not> P c"
proof (induction s arbitrary: piece)
  case Nil
  then show ?case by simp
next
  case (Cons x xs)
  show ?case
  proof (cases "P x")
    case True
    with Cons.prems have "p = piece \<or> p \<in> set (split_from P [] xs)" by simp
    then show ?thesis
    proof
      assume "p = piece"
      with Cons.prems show ?thesis by simp
    next
      assume "p \<in> set (split_from P [] xs)"
      with Cons.IH [of "[]"] Cons.prems(2) show ?thesis by simp
    qed
  next
    case False
    with Cons.prems have "p \<in> set (split_from P (piece @ [x]) xs)" by simp
    with Cons.IH [of "piece @ [x]"] Cons.prems(2) False show ?thesis by auto
  qed
qed

lemma split_on_pieces: "p \<in> set (split_on P s) \<Longrightarrow> c \<in> set p \<Longrightarrow> \<not> P c"
  using split_from_pieces [of p P "[]" s c] by (simp add: split_on_def)

lemma length_split_from: "length (split_from P piece s) = Suc (length (filter P s))"
  by (induction s arbitrary: piece) simp_all

lemma length_split_on: "length (split_on P s) = Suc (length (filter P s))"
  by (simp add: split_on_def length_split_from)

text \<open>Trimming removes white space from both ends and nothing else.\<close>

lemma trim_decomposition:
  "\<exists>a b. s = a @ trim s @ b \<and> (\<forall>c\<in>set a. is_space c) \<and> (\<forall>c\<in>set b. is_space c)"
proof -
  let ?ys = "dropWhile is_space s"
  let ?a = "takeWhile is_space s"
  let ?b = "rev (takeWhile is_space (rev ?ys))"
  have "?ys = trim s @ ?b"
    unfolding trim_def by (metis rev_append rev_rev_ident takeWhile_dropWhile_id)
  moreover have "s = ?a @ ?ys" by simp
  ultimately have "s = ?a @ trim s @ ?b" by simp
  moreover have "\<forall>c\<in>set ?a. is_space c" by (auto dest: set_takeWhileD)
  moreover have "\<forall>c\<in>set ?b. is_space c" by (auto dest: set_takeWhileD)
  ultimately show ?thesis by blast
qed

lemma trim_ends:
  assumes "trim s \<noteq> []"
  shows "\<not> is_space (hd (trim s)) \<and> \<not> is_space (last (trim s))"
proof -
  let ?ys = "dropWhile is_space s"
  let ?zs = "dropWhile is_space (rev ?ys)"
  from assms have zs: "?zs \<noteq> []" by (simp add: trim_def)
  then have "\<not> is_space (hd ?zs)" by (rule hd_dropWhile)
  with zs have last: "\<not> is_space (last (trim s))" by (simp add: trim_def last_rev)
  from zs have ys: "?ys \<noteq> []" by (metis dropWhile.simps(1) rev.simps(1))
  then have h: "\<not> is_space (hd ?ys)" by (rule hd_dropWhile)
  have "rev ?ys = takeWhile is_space (rev ?ys) @ ?zs" by simp
  with zs have "last (rev ?ys) = last ?zs" by (metis last_appendR)
  with ys zs have "hd (trim s) = hd ?ys" by (simp add: trim_def hd_rev last_rev)
  with h last show ?thesis by simp
qed

lemma set_trim: "set (trim s) \<subseteq> set s"
proof -
  have "set (trim s) = set (dropWhile is_space (rev (dropWhile is_space s)))"
    by (simp add: trim_def)
  also have "\<dots> \<subseteq> set (rev (dropWhile is_space s))" by (auto dest: set_dropWhileD)
  also have "\<dots> \<subseteq> set s" by (auto dest: set_dropWhileD)
  finally show ?thesis .
qed

section \<open>Facts about the page document\<close>

lemma getMetaContent_absent: "querySelectorAll doc sel = [] \<Longrightarrow> getMetaContent doc sel = []"
  by (simp add: getMetaContent_def querySelector_def)

lemma has_meta_content: "has_meta doc sel v \<Longrightarrow> getMetaContent doc sel = v \<and> v \<noteq> []"
  by (auto simp: has_meta_def getMetaContent_def querySelector_def split: list.splits)

text \<open>The first tag of a list that the page carries decides the first non-empty reading.\<close>

lemma first_nonempty_decomp:
  "\<forall>s\<in>set before. rd s = [] \<Longrightarrow> rd sel \<noteq> [] \<Longrightarrow>
   first_nonempty rd (before @ sel # after) = rd sel"
  by (induction before) simp_all

lemma prefers_tagsI:
  assumes "\<And>super doc. first_nonempty (getMetaContent doc) sels \<noteq> [] \<Longrightarrow>
     accessor super doc = f (first_nonempty (getMetaContent doc) sels)"
  shows "prefers_tags accessor f sels"
  unfolding prefers_tags_def
proof (intro allI impI)
  fix super doc before sel after v
  assume h: "sels = before @ sel # after \<and> (\<forall>s\<in>set before. getMetaContent doc s = []) \<and>
    has_meta doc sel v"
  then have "has_meta doc sel v" by simp
  then have v: "getMetaContent doc sel = v \<and> v \<noteq> []" by (rule has_meta_content)
  with h have "first_nonempty (getMetaContent doc) sels = v"
    by (simp add: first_nonempty_decomp)
  with v assms [of doc super] show "accessor super doc = f v" by simp
qed

lemma prefers_author_tagsI:
  assumes "\<And>super (doc :: document).
     first_nonempty (\<lambda>s. push_contents (querySelectorAll doc s)) sels \<noteq> [] \<Longrightarrow>
     accessor super doc
       = join '', '' (first_nonempty (\<lambda>s. push_contents (querySelectorAll doc s)) sels)"
  shows "prefers_author_tags accessor sels"
  unfolding prefers_author_tags_def
proof (intro allI impI)
  fix super and doc :: document and before sel after
  let ?rd = "\<lambda>s. push_contents (querySelectorAll doc s)"
  assume h: "sels = before @ sel # after \<and>
    (\<forall>s\<in>set before. push_contents (querySelectorAll doc s) = []) \<and>
    push_contents (querySelectorAll doc sel) \<noteq> []"
  then have "first_nonempty ?rd sels = ?rd sel"
    using first_nonempty_decomp [of before ?rd sel after] by simp
  with h assms [of doc super]
  show "accessor super doc = join '', '' (push_contents (querySelectorAll doc sel))" by simp
qed

lemmas extractor_defs =
  MedRxiv_extractTitle_def MedRxiv_extractAuthors_def MedRxiv_extractDescription_def
  MedRxiv_extractPublishedDate_def MedRxiv_extractDoi_def MedRxiv_extractJournalName_def
  MedRxiv_extractTags_def NeurIPS_extractTitle_def NeurIPS_extractAuthors_def
  NeurIPS_extractDescription_def NeurIPS_extractPublishedDate_def
  NeurIPS_extractJournalName_def NeurIPS_extractTags_def ACM_extractTitle_def
  ACM_extractAuthors_def ACM_extractDescription_def ACM_extractPublishedDate_def
  ACM_extractDoi_def ACM_extractJournalName_def ACM_extractTags_def SSRN_extractTitle_def
  SSRN_extractAuthors_def SSRN_extractDescription_def SSRN_extractPublishedDate_def
  SSRN_extractDoi_def SSRN_extractJournalName_def SSRN_extractTags_def CVF_extractTitle_def
  CVF_extractAuthors_def CVF_extractDescription_def CVF_extractPublishedDate_def
  CVF_extractJournalName_def CVF_extractTags_def Springer_extractTitle_def
  Springer_extractAuthors_def Springer_extractDescription_def Springer_extractPublishedDate_def
  Springer_extractDoi_def Springer_extractJournalName_def Springer_extractTags_def
  IEEE_extractTitle_def IEEE_extractAuthors_def IEEE_extractDescription_def
  IEEE_extractPublishedDate_def IEEE_extractDoi_def IEEE_extractJournalName_def
  IEEE_extractTags_def ACL_extractTitle_def ACL_extractAuthors_def ACL_extractDescription_def
  ACL_extractPublishedDate_def ACL_extractDoi_def ACL_extractJournalName_def
  ACL_extractTags_def

section \<open>Properties of the specialised extractors\<close>

text \<open>
  C9. In the medRxiv, SSRN and NeurIPS extractors \<^verbatim>\<open>extractJournalName\<close> never returns the
  empty string: it is the journal (conference) title tag's value when that is not empty and
  the literal publisher name otherwise. The inherited method has no part in the result: the
  call to it after the literal is never reached.
\<close>

theorem extractJournalName_literal_fallback:
  \<open>MedRxiv_extractJournalName super doc \<noteq> [] \<and>
   MedRxiv_extractJournalName super doc = or_else (getMetaContent doc ''meta[name="citation_journal_title"]'') ''medRxiv'' \<and>
   (querySelectorAll doc ''meta[name="citation_journal_title"]'' = [] \<longrightarrow>
      MedRxiv_extractJournalName super doc = ''medRxiv'') \<and>
   (getMetaContent doc ''meta[name="citation_journal_title"]'' = [] \<longrightarrow>
      MedRxiv_extractJournalName super doc = ''medRxiv'') \<and>
   MedRxiv_extractJournalName super doc = MedRxiv_extractJournalName super' doc \<and>
   SSRN_extractJournalName super doc \<noteq> [] \<and>
   SSRN_extractJournalName super doc = or_else (getMetaContent doc ''meta[name="citation_journal_title"]'') ''SSRN'' \<and>
   (querySelectorAll doc ''meta[name="citation_journal_title"]'' = [] \<longrightarrow>
      SSRN_extractJournalName super doc = ''SSRN'') \<and>
   (getMetaContent doc ''meta[name="citation_journal_title"]'' = [] \<longrightarrow>
      SSRN_extractJournalName super doc = ''SSRN'') \<and>
   SSRN_extractJournalName super doc = SSRN_extractJournalName super' doc \<and>
   NeurIPS_extractJournalName super doc \<noteq> [] \<and>
   NeurIPS_extractJournalName super doc = or_else (getMetaContent doc ''meta[name="citation_conference_title"]'') ''NeurIPS'' \<and>
   (querySelectorAll doc ''meta[name="citation_conference_title"]'' = [] \<longrightarrow>
      NeurIPS_extractJournalName super doc = ''NeurIPS'') \<and>
   (getMetaContent doc ''meta[name="citation_conference_title"]'' = [] \<longrightarrow>
      NeurIPS_extractJournalName super doc = ''NeurIPS'') \<and>
   NeurIPS_extractJournalName super doc = NeurIPS_extractJournalName super' doc\<close>
  by (simp add: MedRxiv_extractJournalName_def SSRN_extractJournalName_def
      NeurIPS_extractJournalName_def or_else_def getMetaContent_absent)

theorem extractJournalName_literal_fallback_witness:
  \<open>querySelectorAll empty_page ''meta[name="citation_journal_title"]'' = [] \<and>
   querySelectorAll empty_page ''meta[name="citation_conference_title"]'' = [] \<and>
   MedRxiv_extractJournalName silent_base empty_page = ''medRxiv'' \<and>
   SSRN_extractJournalName silent_base empty_page = ''SSRN'' \<and>
   NeurIPS_extractJournalName silent_base empty_page = ''NeurIPS''\<close>
proof -
  have j: \<open>querySelectorAll empty_page ''meta[name="citation_journal_title"]'' = []\<close>
    and c: \<open>querySelectorAll empty_page ''meta[name="citation_conference_title"]'' = []\<close>
    by (simp_all add: empty_page_def page_def)
  with extractJournalName_literal_fallback [of silent_base empty_page silent_base]
  show ?thesis by (simp add: or_else_Nil getMetaContent_absent)
qed

text \<open>
  C3, as the code has it. On a page with none of the selectors' targets, where the inherited
  methods find nothing either, every accessor of the eight extractors returns the empty
  string (the empty list for tags), except \<^verbatim>\<open>extractJournalName\<close> of the medRxiv, SSRN and
  NeurIPS extractors, which returns the literal publisher name. Every accessor is a total
  function of the page: none of them raises.
\<close>

theorem accessors_on_page_without_targets:
  assumes "no_relevant_targets doc" and "super_finds_nothing super doc"
  shows "MedRxiv_extractTitle super doc = [] \<and>
         MedRxiv_extractAuthors super doc = [] \<and>
         MedRxiv_extractDescription super doc = [] \<and>
         MedRxiv_extractPublishedDate super doc = [] \<and>
         MedRxiv_extractDoi super doc = [] \<and>
         MedRxiv_extractJournalName super doc = ''medRxiv'' \<and>
         MedRxiv_extractTags super doc = [] \<and>
         NeurIPS_extractTitle super doc = [] \<and>
         NeurIPS_extractAuthors super doc = [] \<and>
         NeurIPS_extractDescription super doc = [] \<and>
         NeurIPS_extractPublishedDate super doc = [] \<and>
         NeurIPS_extractJournalName super doc = ''NeurIPS'' \<and>
         NeurIPS_extractTags super doc = [] \<and>
         ACM_extractTitle super doc = [] \<and>
         ACM_extractAuthors super doc = [] \<and>
         ACM_extractDescription super doc = [] \<and>
         ACM_extractPublishedDate super doc = [] \<and>
         ACM_extractDoi super doc = [] \<and>
         ACM_extractJournalName super doc = [] \<and>
         ACM_extractTags super doc = [] \<and>
         SSRN_extractTitle super doc = [] \<and>
         SSRN_extractAuthors super doc = [] \<and>
         SSRN_extractDescription super doc = [] \<and>
         SSRN_extractPublishedDate super doc = [] \<and>
         SSRN_extractDoi super doc = [] \<and>
         SSRN_extractJournalName super doc = ''SSRN'' \<and>
         SSRN_extractTags super doc = [] \<and>
         CVF_extractTitle super doc = [] \<and>
         CVF_extractAuthors super doc = [] \<and>
         CVF_extractDescription super doc = [] \<and>
         CVF_extractPublishedDate super doc = [] \<and>
         CVF_extractJournalName super doc = [] \<and>
         CVF_extractTags super doc = [] \<and>
         Springer_extractTitle super doc = [] \<and>
         Springer_extractAuthors super doc = [] \<and>
         Springer_extractDescription super doc = [] \<and>
         Springer_extractPublishedDate super doc = [] \<and>
         Springer_extractDoi super doc = [] \<and>
         Springer_extractJournalName super doc = [] \<and>
         Springer_extractTags super doc = [] \<and>
         IEEE_extractTitle super doc = [] \<and>
         IEEE_extractAuthors super doc = [] \<and>
         IEEE_extractDescription super doc = [] \<and>
         IEEE_extractPublishedDate super doc = [] \<and>
         IEEE_extractDoi super doc = [] \<and>
         IEEE_extractJournalName super doc = [] \<and>
         IEEE_extractTags super doc = [] \<and>
         ACL_extractTitle super doc = [] \<and>
         ACL_extractAuthors super doc = [] \<and>
         ACL_extractDescription super doc = [] \<and>
         ACL_extractPublishedDate super doc = [] \<and>
         ACL_extractDoi super doc = [] \<and>
         ACL_extractJournalName super doc = [] \<and>
         ACL_extractTags super doc = []"
  using assms
  unfolding no_relevant_targets_def relevant_selectors_def super_finds_nothing_def extractor_defs
  by (simp add: getMetaContent_absent querySelector_def or_else_def)

theorem accessors_on_page_without_targets_witness:
  "no_relevant_targets empty_page \<and> super_finds_nothing silent_base empty_page \<and>
   MedRxiv_extractTitle silent_base empty_page = [] \<and>
   NeurIPS_extractAuthors silent_base empty_page = [] \<and>
   CVF_extractDescription silent_base empty_page = [] \<and>
   IEEE_extractTags silent_base empty_page = [] \<and>
   SSRN_extractJournalName silent_base empty_page = ''SSRN''"
proof -
  have t: "no_relevant_targets empty_page"
    by (simp add: no_relevant_targets_def empty_page_def page_def)
  have s: "super_finds_nothing silent_base empty_page"
    by (simp add: super_finds_nothing_def silent_base_def)
  from accessors_on_page_without_targets [OF t s] t s show ?thesis by simp
qed

text \<open>
  C3, as stated, fails for \<^verbatim>\<open>extractJournalName\<close> of the medRxiv extractor (and likewise of
  the SSRN and NeurIPS extractors): on the page without any target it returns the literal
  publisher name, not the empty string.
\<close>

theorem accessors_on_page_without_targets_counterexample:
  "no_relevant_targets empty_page \<and> super_finds_nothing silent_base empty_page \<and>
   MedRxiv_extractJournalName silent_base empty_page = ''medRxiv'' \<and>
   MedRxiv_extractJournalName silent_base empty_page \<noteq> []"
  by (simp add: no_relevant_targets_def super_finds_nothing_def silent_base_def empty_page_def
      page_def MedRxiv_extractJournalName_def getMetaContent_absent or_else_def)

text \<open>
  C4, as the code has it. The only field whose chain has a citation tag, a Dublin-Core tag
  and an Open-Graph tag is the title of the medRxiv, ACM and Springer extractors, and there
  the order is citation tag, then Open-Graph tag, then Dublin-Core tag: the citation title is
  returned when the page carries it; without it the Open-Graph title is returned when the
  page carries that, whether or not a Dublin-Core title is there; the Dublin-Core title is
  returned only when the other two are missing.
\<close>

theorem extractTitle_chain_order:
  \<open>(has_meta doc ''meta[name="citation_title"]'' t \<longrightarrow> MedRxiv_extractTitle super doc = t) \<and>
   (getMetaContent doc ''meta[name="citation_title"]'' = [] \<and> has_meta doc ''meta[property="og:title"]'' g
      \<longrightarrow> MedRxiv_extractTitle super doc = g) \<and>
   (getMetaContent doc ''meta[name="citation_title"]'' = [] \<and> getMetaContent doc ''meta[property="og:title"]'' = [] \<and>
      has_meta doc ''meta[name="DC.Title"]'' d \<longrightarrow> MedRxiv_extractTitle super doc = d) \<and>
   (has_meta doc ''meta[name="citation_title"]'' t \<longrightarrow> ACM_extractTitle super doc = t) \<and>
   (getMetaContent doc ''meta[name="citation_title"]'' = [] \<and> has_meta doc ''meta[property="og:title"]'' g
      \<longrightarrow> ACM_extractTitle super doc = g) \<and>
   (getMetaContent doc ''meta[name="citation_title"]'' = [] \<and> getMetaContent doc ''meta[property="og:title"]'' = [] \<and>
      has_meta doc ''meta[name="dc.Title"]'' d \<longrightarrow> ACM_extractTitle super doc = d) \<and>
   (has_meta doc ''meta[name="citation_title"]'' t \<longrightarrow> Springer_extractTitle super doc = t) \<and>
   (getMetaContent doc ''meta[name="citation_title"]'' = [] \<and> has_meta doc ''meta[property="og:title"]'' g
      \<longrightarrow> Springer_extractTitle super doc = g) \<and>
   (getMetaContent doc ''meta[name="citation_title"]'' = [] \<and> getMetaContent doc ''meta[property="og:title"]'' = [] \<and>
      has_meta doc ''meta[name="dc.title"]'' d \<longrightarrow> Springer_extractTitle super doc = d)\<close>
proof -
  have cit: \<open>has_meta doc ''meta[name="citation_title"]'' t \<Longrightarrow>
      MedRxiv_extractTitle super doc = t \<and> ACM_extractTitle super doc = t \<and>
      Springer_extractTitle super doc = t\<close>
  proof -
    assume \<open>has_meta doc ''meta[name="citation_title"]'' t\<close>
    then have \<open>getMetaContent doc ''meta[name="citation_title"]'' = t \<and> t \<noteq> []\<close>
      by (rule has_meta_content)
    then show ?thesis
      by (simp add: MedRxiv_extractTitle_def ACM_extractTitle_def Springer_extractTitle_def
          or_else_def)
  qed
  have og: \<open>getMetaContent doc ''meta[name="citation_title"]'' = [] \<Longrightarrow>
      has_meta doc ''meta[property="og:title"]'' g \<Longrightarrow>
      MedRxiv_extractTitle super doc = g \<and> ACM_extractTitle super doc = g \<and>
      Springer_extractTitle super doc = g\<close>
  proof -
    assume none: \<open>getMetaContent doc ''meta[name="citation_title"]'' = []\<close>
    assume \<open>has_meta doc ''meta[property="og:title"]'' g\<close>
    then have \<open>getMetaContent doc ''meta[property="og:title"]'' = g \<and> g \<noteq> []\<close>
      by (rule has_meta_content)
    with none show ?thesis
      by (simp add: MedRxiv_extractTitle_def ACM_extractTitle_def Springer_extractTitle_def
          or_else_def)
  qed
  have dc: \<open>getMetaContent doc ''meta[name="citation_title"]'' = [] \<Longrightarrow>
      getMetaContent doc ''meta[property="og:title"]'' = [] \<Longrightarrow>
      (has_meta doc ''meta[name="DC.Title"]'' d \<longrightarrow> MedRxiv_extractTitle super doc = d) \<and>
      (has_meta doc ''meta[name="dc.Title"]'' d \<longrightarrow> ACM_extractTitle super doc = d) \<and>
      (has_meta doc ''meta[name="dc.title"]'' d \<longrightarrow> Springer_extractTitle super doc = d)\<close>
  proof (intro conjI impI)
    assume none: \<open>getMetaContent doc ''meta[name="citation_title"]'' = []\<close>
      \<open>getMetaContent doc ''meta[property="og:title"]'' = []\<close>
    {
      assume \<open>has_meta doc ''meta[name="DC.Title"]'' d\<close>
      then have \<open>getMetaContent doc ''meta[name="DC.Title"]'' = d \<and> d \<noteq> []\<close>
        by (rule has_meta_content)
      with none show "MedRxiv_extractTitle super doc = d"
        by (simp add: MedRxiv_extractTitle_def or_else_def)
    next
      assume \<open>has_meta doc ''meta[name="dc.Title"]'' d\<close>
      then have \<open>getMetaContent doc ''meta[name="dc.Title"]'' = d \<and> d \<noteq> []\<close>
        by (rule has_meta_content)
      with none show "ACM_extractTitle super doc = d"
        by (simp add: ACM_extractTitle_def or_else_def)
    next
      assume \<open>has_meta doc ''meta[name="dc.title"]'' d\<close>
      then have \<open>getMetaContent doc ''meta[name="dc.title"]'' = d \<and> d \<noteq> []\<close>
        by (rule has_meta_content)
      with none show "Springer_extractTitle super doc = d"
        by (simp add: Springer_extractTitle_def or_else_def)
    }
  qed
  show ?thesis
    by (intro conjI impI) (simp_all add: cit og dc)
qed

theorem extractTitle_chain_order_witness:
  \<open>has_meta page_all_titles ''meta[name="citation_title"]'' ''Citation title'' \<and>
   MedRxiv_extractTitle silent_base page_all_titles = ''Citation title'' \<and>
   getMetaContent page_dc_og_titles ''meta[name="citation_title"]'' = [] \<and>
   has_meta page_dc_og_titles ''meta[property="og:title"]'' ''Open Graph title'' \<and>
   MedRxiv_extractTitle silent_base page_dc_og_titles = ''Open Graph title''\<close>
proof -
  have a: \<open>has_meta page_all_titles ''meta[name="citation_title"]'' ''Citation title''\<close>
    by (simp add: has_meta_def page_all_titles_def page_def meta_tag_def)
  have b: \<open>getMetaContent page_dc_og_titles ''meta[name="citation_title"]'' = []\<close>
    by (simp add: getMetaContent_absent page_dc_og_titles_def page_def)
  have c: \<open>has_meta page_dc_og_titles ''meta[property="og:title"]'' ''Open Graph title''\<close>
    by (simp add: has_meta_def page_dc_og_titles_def page_def meta_tag_def)
  from a have \<open>MedRxiv_extractTitle silent_base page_all_titles = ''Citation title''\<close>
    using extractTitle_chain_order [of page_all_titles "''Citation title''" silent_base]
    by blast
  moreover from b c have \<open>MedRxiv_extractTitle silent_base page_dc_og_titles = ''Open Graph title''\<close>
    using extractTitle_chain_order [of page_dc_og_titles _ silent_base "''Open Graph title''"]
    by blast
  ultimately show ?thesis using a b c by (intro conjI)
qed

text \<open>
  C4, as stated, fails: on a page that carries a Dublin-Core title and an Open-Graph title
  and no citation title, the medRxiv extractor returns the Open-Graph title.
\<close>

theorem extractTitle_chain_order_counterexample:
  \<open>has_meta page_dc_og_titles ''meta[name="DC.Title"]'' ''Dublin Core title'' \<and>
   has_meta page_dc_og_titles ''meta[property="og:title"]'' ''Open Graph title'' \<and>
   getMetaContent page_dc_og_titles ''meta[name="citation_title"]'' = [] \<and>
   MedRxiv_extractTitle silent_base page_dc_og_titles = ''Open Graph title'' \<and>
   MedRxiv_extractTitle silent_base page_dc_og_titles \<noteq> ''Dublin Core title''\<close>
  by (simp add: has_meta_def page_dc_og_titles_def page_def meta_tag_def
      MedRxiv_extractTitle_def getMetaContent_def querySelector_def or_else_def)

text \<open>
  C5, as the code has it. In every field, the publisher-specific meta tags of the
  accessor's chain win over the generic tags and over the inherited method: on a page that
  carries one of them, the accessor returns the value of the first of them, in chain order,
  that the page carries (for tags that value split, for authors the values of all the
  author tags joined), whatever generic tag (\<^verbatim>\<open>og:title\<close>, \<^verbatim>\<open>description\<close>,
  \<^verbatim>\<open>og:description\<close>, \<^verbatim>\<open>keywords\<close>) the page carries besides and whatever the base
  extractor finds. The one publisher-specific tag left out is the Dublin-Core title of the
  medRxiv, ACM and Springer extractors, which \<^verbatim>\<open>extractTitle\<close> tries after \<^verbatim>\<open>og:title\<close>.
\<close>

theorem specific_tag_preferred:
  \<open>prefers_tags MedRxiv_extractTitle (\<lambda>v. v)
     [''meta[name="citation_title"]''] \<and>
   prefers_tags NeurIPS_extractTitle (\<lambda>v. v)
     [''meta[name="citation_title"]''] \<and>
   prefers_tags ACM_extractTitle (\<lambda>v. v)
     [''meta[name="citation_title"]''] \<and>
   prefers_tags SSRN_extractTitle (\<lambda>v. v)
     [''meta[name="citation_title"]''] \<and>
   prefers_tags CVF_extractTitle (\<lambda>v. v)
     [''meta[name="citation_title"]''] \<and>
   prefers_tags Springer_extractTitle (\<lambda>v. v)
     [''meta[name="citation_title"]''] \<and>
   prefers_tags IEEE_extractTitle (\<lambda>v. v)
     [''meta[name="citation_title"]''] \<and>
   prefers_tags ACL_extractTitle (\<lambda>v. v)
     [''meta[name="citation_title"]''] \<and>
   prefers_tags MedRxiv_extractDescription (\<lambda>v. v)
     [''meta[name="citation_abstract"]''] \<and>
   prefers_tags NeurIPS_extractDescription (\<lambda>v. v)
     [''meta[name="citation_abstract"]''] \<and>
   prefers_tags CVF_extractDescription (\<lambda>v. v)
     [''meta[name="citation_abstract"]''] \<and>
   prefers_tags Springer_extractDescription (\<lambda>v. v)
     [''meta[name="dc.description"]''] \<and>
   prefers_tags ACL_extractDescription (\<lambda>v. v)
     [''meta[name="citation_abstract"]''] \<and>
   prefers_tags MedRxiv_extractPublishedDate (\<lambda>v. v)
     [''meta[name="citation_publication_date"]'',
      ''meta[name="citation_online_date"]'',
      ''meta[name="DC.Date"]''] \<and>
   prefers_tags NeurIPS_extractPublishedDate (\<lambda>v. v)
     [''meta[name="citation_publication_date"]'',
      ''meta[name="citation_date"]''] \<and>
   prefers_tags ACM_extractPublishedDate (\<lambda>v. v)
     [''meta[name="citation_publication_date"]'',
      ''meta[name="citation_date"]'',
      ''meta[name="dc.Date"]''] \<and>
   prefers_tags SSRN_extractPublishedDate (\<lambda>v. v)
     [''meta[name="citation_publication_date"]'',
      ''meta[name="citation_date"]'',
      ''meta[name="citation_online_date"]''] \<and>
   prefers_tags CVF_extractPublishedDate (\<lambda>v. v)
     [''meta[name="citation_publication_date"]'',
      ''meta[name="citation_date"]''] \<and>
   prefers_tags Springer_extractPublishedDate (\<lambda>v. v)
     [''meta[name="citation_publication_date"]'',
      ''meta[name="citation_online_date"]'',
      ''meta[name="dc.date"]''] \<and>
   prefers_tags IEEE_extractPublishedDate (\<lambda>v. v)
     [''meta[name="citation_publication_date"]'',
      ''meta[name="citation_date"]'',
      ''meta[name="citation_online_date"]''] \<and>
   prefers_tags ACL_extractPublishedDate (\<lambda>v. v)
     [''meta[name="citation_publication_date"]'',
      ''meta[name="citation_date"]''] \<and>
   prefers_tags MedRxiv_extractDoi (\<lambda>v. v)
     [''meta[name="citation_doi"]'',
      ''meta[name="DC.Identifier"]''] \<and>
   prefers_tags ACM_extractDoi (\<lambda>v. v)
     [''meta[name="citation_doi"]'',
      ''meta[name="dc.Identifier"]''] \<and>
   prefers_tags SSRN_extractDoi (\<lambda>v. v)
     [''meta[name="citation_doi"]''] \<and>
   prefers_tags Springer_extractDoi (\<lambda>v. v)
     [''meta[name="citation_doi"]'',
      ''meta[name="dc.identifier"]''] \<and>
   prefers_tags IEEE_extractDoi (\<lambda>v. v)
     [''meta[name="citation_doi"]''] \<and>
   prefers_tags ACL_extractDoi (\<lambda>v. v)
     [''meta[name="citation_doi"]''] \<and>
   prefers_tags MedRxiv_extractJournalName (\<lambda>v. v)
     [''meta[name="citation_journal_title"]''] \<and>
   prefers_tags NeurIPS_extractJournalName (\<lambda>v. v)
     [''meta[name="citation_conference_title"]''] \<and>
   prefers_tags ACM_extractJournalName (\<lambda>v. v)
     [''meta[name="citation_journal_title"]'',
      ''meta[name="citation_conference_title"]'',
      ''meta[name="dc.Source"]''] \<and>
   prefers_tags SSRN_extractJournalName (\<lambda>v. v)
     [''meta[name="citation_journal_title"]''] \<and>
   prefers_tags CVF_extractJournalName (\<lambda>v. v)
     [''meta[name="citation_conference_title"]''] \<and>
   prefers_tags Springer_extractJournalName (\<lambda>v. v)
     [''meta[name="citation_journal_title"]'',
      ''meta[name="citation_conference_title"]'',
      ''meta[name="prism.publicationName"]''] \<and>
   prefers_tags IEEE_extractJournalName (\<lambda>v. v)
     [''meta[name="citation_journal_title"]'',
      ''meta[name="citation_conference_title"]''] \<and>
   prefers_tags ACL_extractJournalName (\<lambda>v. v)
     [''meta[name="citation_conference_title"]'',
      ''meta[name="citation_journal_title"]''] \<and>
   prefers_tags MedRxiv_extractTags split_tags
     [''meta[name="citation_keywords"]''] \<and>
   prefers_tags NeurIPS_extractTags split_tags
     [''meta[name="citation_keywords"]''] \<and>
   prefers_tags ACM_extractTags split_tags
     [''meta[name="citation_keywords"]''] \<and>
   prefers_tags SSRN_extractTags split_tags
     [''meta[name="citation_keywords"]''] \<and>
   prefers_tags CVF_extractTags split_tags
     [''meta[name="citation_keywords"]''] \<and>
   prefers_tags Springer_extractTags split_tags
     [''meta[name="citation_keywords"]''] \<and>
   prefers_tags IEEE_extractTags split_tags
     [''meta[name="citation_keywords"]''] \<and>
   prefers_tags ACL_extractTags split_tags
     [''meta[name="citation_keywords"]''] \<and>
   prefers_author_tags MedRxiv_extractAuthors
     [''meta[name="citation_author"]''] \<and>
   prefers_author_tags NeurIPS_extractAuthors
     [''meta[name="citation_author"]''] \<and>
   prefers_author_tags ACM_extractAuthors
     [''meta[name="citation_author"]''] \<and>
   prefers_author_tags SSRN_extractAuthors
     [''meta[name="citation_author"]''] \<and>
   prefers_author_tags CVF_extractAuthors
     [''meta[name="citation_author"]''] \<and>
   prefers_author_tags Springer_extractAuthors
     [''meta[name="citation_author"]'',
      ''meta[name="dc.creator"]''] \<and>
   prefers_author_tags IEEE_extractAuthors
     [''meta[name="citation_author"]''] \<and>
   prefers_author_tags ACL_extractAuthors
     [''meta[name="citation_author"]'']\<close>
proof -
  have titles:
    \<open>prefers_tags MedRxiv_extractTitle (\<lambda>v. v)
      [''meta[name="citation_title"]''] \<and>
    prefers_tags NeurIPS_extractTitle (\<lambda>v. v)
      [''meta[name="citation_title"]''] \<and>
    prefers_tags ACM_extractTitle (\<lambda>v. v)
      [''meta[name="citation_title"]''] \<and>
    prefers_tags SSRN_extractTitle (\<lambda>v. v)
      [''meta[name="citation_title"]''] \<and>
    prefers_tags CVF_extractTitle (\<lambda>v. v)
      [''meta[name="citation_title"]''] \<and>
    prefers_tags Springer_extractTitle (\<lambda>v. v)
      [''meta[name="citation_title"]''] \<and>
    prefers_tags IEEE_extractTitle (\<lambda>v. v)
      [''meta[name="citation_title"]''] \<and>
    prefers_tags ACL_extractTitle (\<lambda>v. v)
      [''meta[name="citation_title"]'']\<close>
    by (intro conjI prefers_tagsI)
       (simp_all add: MedRxiv_extractTitle_def NeurIPS_extractTitle_def ACM_extractTitle_def
          SSRN_extractTitle_def CVF_extractTitle_def Springer_extractTitle_def
          IEEE_extractTitle_def ACL_extractTitle_def
          or_else_def split: if_splits)
  have descriptions:
    \<open>prefers_tags MedRxiv_extractDescription (\<lambda>v. v)
      [''meta[name="citation_abstract"]''] \<and>
    prefers_tags NeurIPS_extractDescription (\<lambda>v. v)
      [''meta[name="citation_abstract"]''] \<and>
    prefers_tags CVF_extractDescription (\<lambda>v. v)
      [''meta[name="citation_abstract"]''] \<and>
    prefers_tags Springer_extractDescription (\<lambda>v. v)
      [''meta[name="dc.description"]''] \<and>
    prefers_tags ACL_extractDescription (\<lambda>v. v)
      [''meta[name="citation_abstract"]'']\<close>
    by (intro conjI prefers_tagsI)
       (simp_all add: MedRxiv_extractDescription_def NeurIPS_extractDescription_def
          CVF_extractDescription_def Springer_extractDescription_def
          ACL_extractDescription_def
          or_else_def split: if_splits)
  have dates:
    \<open>prefers_tags MedRxiv_extractPublishedDate (\<lambda>v. v)
      [''meta[name="citation_publication_date"]'',
       ''meta[name="citation_online_date"]'',
       ''meta[name="DC.Date"]''] \<and>
    prefers_tags NeurIPS_extractPublishedDate (\<lambda>v. v)
      [''meta[name="citation_publication_date"]'',
       ''meta[name="citation_date"]''] \<and>
    prefers_tags ACM_extractPublishedDate (\<lambda>v. v)
      [''meta[name="citation_publication_date"]'',
       ''meta[name="citation_date"]'',
       ''meta[name="dc.Date"]''] \<and>
    prefers_tags SSRN_extractPublishedDate (\<lambda>v. v)
      [''meta[name="citation_publication_date"]'',
       ''meta[name="citation_date"]'',
       ''meta[name="citation_online_date"]''] \<and>
    prefers_tags CVF_extractPublishedDate (\<lambda>v. v)
      [''meta[name="citation_publication_date"]'',
       ''meta[name="citation_date"]''] \<and>
    prefers_tags Springer_extractPublishedDate (\<lambda>v. v)
      [''meta[name="citation_publication_date"]'',
       ''meta[name="citation_online_date"]'',
       ''meta[name="dc.date"]''] \<and>
    prefers_tags IEEE_extractPublishedDate (\<lambda>v. v)
      [''meta[name="citation_publication_date"]'',
       ''meta[name="citation_date"]'',
       ''meta[name="citation_online_date"]''] \<and>
    prefers_tags ACL_extractPublishedDate (\<lambda>v. v)
      [''meta[name="citation_publication_date"]'',
       ''meta[name="citation_date"]'']\<close>
    by (intro conjI prefers_tagsI)
       (simp_all add: MedRxiv_extractPublishedDate_def NeurIPS_extractPublishedDate_def
          ACM_extractPublishedDate_def SSRN_extractPublishedDate_def
          CVF_extractPublishedDate_def Springer_extractPublishedDate_def
          IEEE_extractPublishedDate_def ACL_extractPublishedDate_def
          or_else_def split: if_splits)
  have dois:
    \<open>prefers_tags MedRxiv_extractDoi (\<lambda>v. v)
      [''meta[name="citation_doi"]'',
       ''meta[name="DC.Identifier"]''] \<and>
    prefers_tags ACM_extractDoi (\<lambda>v. v)
      [''meta[name="citation_doi"]'',
       ''meta[name="dc.Identifier"]''] \<and>
    prefers_tags SSRN_extractDoi (\<lambda>v. v)
      [''meta[name="citation_doi"]''] \<and>
    prefers_tags Springer_extractDoi (\<lambda>v. v)
      [''meta[name="citation_doi"]'',
       ''meta[name="dc.identifier"]''] \<and>
    prefers_tags IEEE_extractDoi (\<lambda>v. v)
      [''meta[name="citation_doi"]''] \<and>
    prefers_tags ACL_extractDoi (\<lambda>v. v)
      [''meta[name="citation_doi"]'']\<close>
    by (intro conjI prefers_tagsI)
       (simp_all add: MedRxiv_extractDoi_def ACM_extractDoi_def SSRN_extractDoi_def
          Springer_extractDoi_def IEEE_extractDoi_def ACL_extractDoi_def
          or_else_def split: if_splits)
  have journals:
    \<open>prefers_tags MedRxiv_extractJournalName (\<lambda>v. v)
      [''meta[name="citation_journal_title"]''] \<and>
    prefers_tags NeurIPS_extractJournalName (\<lambda>v. v)
      [''meta[name="citation_conference_title"]''] \<and>
    prefers_tags ACM_extractJournalName (\<lambda>v. v)
      [''meta[name="citation_journal_title"]'',
       ''meta[name="citation_conference_title"]'',
       ''meta[name="dc.Source"]''] \<and>
    prefers_tags SSRN_extractJournalName (\<lambda>v. v)
      [''meta[name="citation_journal_title"]''] \<and>
    prefers_tags CVF_extractJournalName (\<lambda>v. v)
      [''meta[name="citation_conference_title"]''] \<and>
    prefers_tags Springer_extractJournalName (\<lambda>v. v)
      [''meta[name="citation_journal_title"]'',
       ''meta[name="citation_conference_title"]'',
       ''meta[name="prism.publicationName"]''] \<and>
    prefers_tags IEEE_extractJournalName (\<lambda>v. v)
      [''meta[name="citation_journal_title"]'',
       ''meta[name="citation_conference_title"]''] \<and>
    prefers_tags ACL_extractJournalName (\<lambda>v. v)
      [''meta[name="citation_conference_title"]'',
       ''meta[name="citation_journal_title"]'']\<close>
    by (intro conjI prefers_tagsI)
       (simp_all add: MedRxiv_extractJournalName_def NeurIPS_extractJournalName_def
          ACM_extractJournalName_def SSRN_extractJournalName_def
          CVF_extractJournalName_def Springer_extractJournalName_def
          IEEE_extractJournalName_def ACL_extractJournalName_def
          or_else_def split: if_splits)
  have tags:
    \<open>prefers_tags MedRxiv_extractTags split_tags
      [''meta[name="citation_keywords"]''] \<and>
    prefers_tags NeurIPS_extractTags split_tags
      [''meta[name="citation_keywords"]''] \<and>
    prefers_tags ACM_extractTags split_tags
      [''meta[name="citation_keywords"]''] \<and>
    prefers_tags SSRN_extractTags split_tags
      [''meta[name="citation_keywords"]''] \<and>
    prefers_tags CVF_extractTags split_tags
      [''meta[name="citation_keywords"]''] \<and>
    prefers_tags Springer_extractTags split_tags
      [''meta[name="citation_keywords"]''] \<and>
    prefers_tags IEEE_extractTags split_tags
      [''meta[name="citation_keywords"]''] \<and>
    prefers_tags ACL_extractTags split_tags
      [''meta[name="citation_keywords"]'']\<close>
    by (intro conjI prefers_tagsI)
       (simp_all add: MedRxiv_extractTags_def NeurIPS_extractTags_def ACM_extractTags_def
          SSRN_extractTags_def CVF_extractTags_def Springer_extractTags_def
          IEEE_extractTags_def ACL_extractTags_def
          or_else_def split: if_splits)
  have authors:
    \<open>prefers_author_tags MedRxiv_extractAuthors
      [''meta[name="citation_author"]''] \<and>
    prefers_author_tags NeurIPS_extractAuthors
      [''meta[name="citation_author"]''] \<and>
    prefers_author_tags ACM_extractAuthors
      [''meta[name="citation_author"]''] \<and>
    prefers_author_tags SSRN_extractAuthors
      [''meta[name="citation_author"]''] \<and>
    prefers_author_tags CVF_extractAuthors
      [''meta[name="citation_author"]''] \<and>
    prefers_author_tags Springer_extractAuthors
      [''meta[name="citation_author"]'',
       ''meta[name="dc.creator"]''] \<and>
    prefers_author_tags IEEE_extractAuthors
      [''meta[name="citation_author"]''] \<and>
    prefers_author_tags ACL_extractAuthors
      [''meta[name="citation_author"]'']\<close>
    by (intro conjI prefers_author_tagsI)
       (simp_all add: MedRxiv_extractAuthors_def NeurIPS_extractAuthors_def ACM_extractAuthors_def
          SSRN_extractAuthors_def CVF_extractAuthors_def Springer_extractAuthors_def
          IEEE_extractAuthors_def ACL_extractAuthors_def
          or_else_def split: if_splits)
  from titles descriptions dates dois journals tags authors show ?thesis
    by (intro conjI) (elim conjE; assumption)+
qed

theorem specific_tag_preferred_witness:
  \<open>has_meta page_all_titles ''meta[name="citation_title"]'' ''Citation title'' \<and>
   has_meta page_all_titles ''meta[property="og:title"]'' ''Open Graph title'' \<and>
   SSRN_extractTitle silent_base page_all_titles = ''Citation title'' \<and>
   NeurIPS_extractTitle silent_base page_all_titles = ''Citation title'' \<and>
   getMetaContent page_dc_identifier ''meta[name="citation_doi"]'' = [] \<and>
   has_meta page_dc_identifier ''meta[name="DC.Identifier"]'' ''10.1101/2021.01.01.000001'' \<and>
   MedRxiv_extractDoi silent_base page_dc_identifier = ''10.1101/2021.01.01.000001''\<close>
proof -
  have a: \<open>has_meta page_all_titles ''meta[name="citation_title"]'' ''Citation title''\<close>
    and b: \<open>has_meta page_all_titles ''meta[property="og:title"]'' ''Open Graph title''\<close>
    by (simp_all add: has_meta_def page_all_titles_def page_def meta_tag_def)
  have c: \<open>getMetaContent page_dc_identifier ''meta[name="citation_doi"]'' = []\<close>
    by (simp add: getMetaContent_absent page_dc_identifier_def page_def)
  have d: \<open>has_meta page_dc_identifier ''meta[name="DC.Identifier"]''
      ''10.1101/2021.01.01.000001''\<close>
    by (simp add: has_meta_def page_dc_identifier_def page_def meta_tag_def)
  have ssrn: \<open>prefers_tags SSRN_extractTitle (\<lambda>v. v) [''meta[name="citation_title"]'']\<close>
    and neurips: \<open>prefers_tags NeurIPS_extractTitle (\<lambda>v. v) [''meta[name="citation_title"]'']\<close>
    and medrxiv: \<open>prefers_tags MedRxiv_extractDoi (\<lambda>v. v)
      [''meta[name="citation_doi"]'', ''meta[name="DC.Identifier"]'']\<close>
    using specific_tag_preferred by blast+
  have s: \<open>SSRN_extractTitle silent_base page_all_titles = ''Citation title''\<close>
    using ssrn [unfolded prefers_tags_def, rule_format,
        of "[]" \<open>''meta[name="citation_title"]''\<close> "[]" page_all_titles "''Citation title''"
          silent_base] a
    by simp
  have n: \<open>NeurIPS_extractTitle silent_base page_all_titles = ''Citation title''\<close>
    using neurips [unfolded prefers_tags_def, rule_format,
        of "[]" \<open>''meta[name="citation_title"]''\<close> "[]" page_all_titles "''Citation title''"
          silent_base] a
    by simp
  have m: \<open>MedRxiv_extractDoi silent_base page_dc_identifier = ''10.1101/2021.01.01.000001''\<close>
    using medrxiv [unfolded prefers_tags_def, rule_format,
        of \<open>[''meta[name="citation_doi"]'']\<close> \<open>''meta[name="DC.Identifier"]''\<close> "[]"
          page_dc_identifier "''10.1101/2021.01.01.000001''" silent_base] c d
    by simp
  from a b s n c d m show ?thesis by (intro conjI)
qed

text \<open>
  C5, as stated, fails for a Dublin-Core title: the ACM extractor (and likewise the medRxiv
  and Springer extractors) tries it after \<^verbatim>\<open>og:title\<close>, so on a page that carries both it
  returns the generic Open-Graph title.
\<close>

theorem specific_tag_preferred_counterexample:
  \<open>has_meta page_acm_dc_og_titles ''meta[name="dc.Title"]'' ''Dublin Core title'' \<and>
   has_meta page_acm_dc_og_titles ''meta[property="og:title"]'' ''Open Graph title'' \<and>
   ACM_extractTitle silent_base page_acm_dc_og_titles = ''Open Graph title'' \<and>
   ACM_extractTitle silent_base page_acm_dc_og_titles \<noteq> ''Dublin Core title''\<close>
  by (simp add: has_meta_def page_acm_dc_og_titles_def page_def meta_tag_def
      ACM_extractTitle_def getMetaContent_def querySelector_def or_else_def)

text \<open>
  C8. When the value \<open>kw\<close> of the \<^verbatim>\<open>citation_keywords\<close> tag or, that being empty, of the
  \<^verbatim>\<open>keywords\<close> tag is not empty, \<^verbatim>\<open>extractTags\<close> of each of the eight extractors returns
  the pieces of \<open>kw\<close> between its \<open>,\<close> and \<open>;\<close> characters, each trimmed, the empty ones
  left out. The pieces are cut at every separator and only there: put back together with
  the separators of \<open>kw\<close> they give \<open>kw\<close>, and no piece holds a separator. Trimming takes
  white space off both ends of a piece and nothing else, so no tag begins or ends with
  white space.
\<close>

theorem extractTags_splits_keywords:
  assumes kw: \<open>kw = or_else (getMetaContent doc ''meta[name="citation_keywords"]'')
                         (getMetaContent doc ''meta[name="keywords"]'')\<close>
    and ne: "kw \<noteq> []"
  shows "MedRxiv_extractTags super doc = filter (\<lambda>tag. tag \<noteq> []) (map trim (split_on is_tag_separator kw)) \<and>
         NeurIPS_extractTags super doc = filter (\<lambda>tag. tag \<noteq> []) (map trim (split_on is_tag_separator kw)) \<and>
         ACM_extractTags super doc = filter (\<lambda>tag. tag \<noteq> []) (map trim (split_on is_tag_separator kw)) \<and>
         SSRN_extractTags super doc = filter (\<lambda>tag. tag \<noteq> []) (map trim (split_on is_tag_separator kw)) \<and>
         CVF_extractTags super doc = filter (\<lambda>tag. tag \<noteq> []) (map trim (split_on is_tag_separator kw)) \<and>
         Springer_extractTags super doc = filter (\<lambda>tag. tag \<noteq> []) (map trim (split_on is_tag_separator kw)) \<and>
         IEEE_extractTags super doc = filter (\<lambda>tag. tag \<noteq> []) (map trim (split_on is_tag_separator kw)) \<and>
         ACL_extractTags super doc = filter (\<lambda>tag. tag \<noteq> []) (map trim (split_on is_tag_separator kw)) \<and>
         interleave (split_on is_tag_separator kw) (filter is_tag_separator kw) = kw \<and>
         (\<forall>p\<in>set (split_on is_tag_separator kw).
            (\<forall>c\<in>set p. c \<noteq> CHR '','' \<and> c \<noteq> CHR '';'') \<and>
            (\<exists>a b. p = a @ trim p @ b \<and> (\<forall>c\<in>set a. is_space c) \<and> (\<forall>c\<in>set b. is_space c))) \<and>
         (\<forall>tag\<in>set (filter (\<lambda>tag. tag \<noteq> []) (map trim (split_on is_tag_separator kw))).
            tag \<noteq> [] \<and> \<not> is_space (hd tag) \<and> \<not> is_space (last tag) \<and>
            (\<forall>c\<in>set tag. c \<noteq> CHR '','' \<and> c \<noteq> CHR '';''))"
proof -
  let ?pieces = "split_on is_tag_separator kw"
  have tags:
    "MedRxiv_extractTags super doc = filter (\<lambda>tag. tag \<noteq> []) (map trim ?pieces)"
    "NeurIPS_extractTags super doc = filter (\<lambda>tag. tag \<noteq> []) (map trim ?pieces)"
    "ACM_extractTags super doc = filter (\<lambda>tag. tag \<noteq> []) (map trim ?pieces)"
    "SSRN_extractTags super doc = filter (\<lambda>tag. tag \<noteq> []) (map trim ?pieces)"
    "CVF_extractTags super doc = filter (\<lambda>tag. tag \<noteq> []) (map trim ?pieces)"
    "Springer_extractTags super doc = filter (\<lambda>tag. tag \<noteq> []) (map trim ?pieces)"
    "IEEE_extractTags super doc = filter (\<lambda>tag. tag \<noteq> []) (map trim ?pieces)"
    "ACL_extractTags super doc = filter (\<lambda>tag. tag \<noteq> []) (map trim ?pieces)"
    using ne unfolding kw
    by (simp_all add: MedRxiv_extractTags_def NeurIPS_extractTags_def ACM_extractTags_def
        SSRN_extractTags_def CVF_extractTags_def Springer_extractTags_def IEEE_extractTags_def
        ACL_extractTags_def split_tags_def)
  have rejoin: "interleave ?pieces (filter is_tag_separator kw) = kw"
    by (rule interleave_split_on)
  have pieces: "\<forall>p\<in>set ?pieces.
      (\<forall>c\<in>set p. c \<noteq> CHR '','' \<and> c \<noteq> CHR '';'') \<and>
      (\<exists>a b. p = a @ trim p @ b \<and> (\<forall>c\<in>set a. is_space c) \<and> (\<forall>c\<in>set b. is_space c))"
  proof (intro ballI conjI)
    fix p c
    assume "p \<in> set ?pieces" and "c \<in> set p"
    then have "\<not> is_tag_separator c" by (rule split_on_pieces)
    then show "c \<noteq> CHR '',''" and "c \<noteq> CHR '';''" by (simp_all add: is_tag_separator_def)
  next
    fix p
    show "\<exists>a b. p = a @ trim p @ b \<and> (\<forall>c\<in>set a. is_space c) \<and> (\<forall>c\<in>set b. is_space c)"
      by (rule trim_decomposition)
  qed
  have trimmed: "\<forall>tag\<in>set (filter (\<lambda>tag. tag \<noteq> []) (map trim ?pieces)).
      tag \<noteq> [] \<and> \<not> is_space (hd tag) \<and> \<not> is_space (last tag) \<and>
      (\<forall>c\<in>set tag. c \<noteq> CHR '','' \<and> c \<noteq> CHR '';'')"
  proof
    fix tag
    assume "tag \<in> set (filter (\<lambda>tag. tag \<noteq> []) (map trim ?pieces))"
    then obtain p where p: "p \<in> set ?pieces" and tag: "tag = trim p" and ne: "tag \<noteq> []"
      by auto
    from ne tag have ends: "\<not> is_space (hd tag) \<and> \<not> is_space (last tag)"
      using trim_ends [of p] by simp
    have "\<forall>c\<in>set tag. c \<noteq> CHR '','' \<and> c \<noteq> CHR '';''"
    proof
      fix c
      assume "c \<in> set tag"
      with tag have "c \<in> set p" using set_trim [of p] by auto
      with p have "\<not> is_tag_separator c" by (rule split_on_pieces)
      then show "c \<noteq> CHR '','' \<and> c \<noteq> CHR '';''" by (simp add: is_tag_separator_def)
    qed
    with ne ends show "tag \<noteq> [] \<and> \<not> is_space (hd tag) \<and> \<not> is_space (last tag) \<and>
      (\<forall>c\<in>set tag. c \<noteq> CHR '','' \<and> c \<noteq> CHR '';'')"
      by simp
  qed
  from tags rejoin pieces trimmed show ?thesis
    by (intro conjI)
qed

theorem extractTags_splits_keywords_witness:
  \<open>or_else (getMetaContent page_keywords ''meta[name="citation_keywords"]'')
           (getMetaContent page_keywords ''meta[name="keywords"]'')
     = ''deep learning; vision ,, optics '' \<and>
   MedRxiv_extractTags silent_base page_keywords = [''deep learning'', ''vision'', ''optics''] \<and>
   NeurIPS_extractTags silent_base page_keywords = [''deep learning'', ''vision'', ''optics'']\<close>
proof -
  let ?kw = "''deep learning; vision ,, optics ''"
  have kw: \<open>?kw = or_else (getMetaContent page_keywords ''meta[name="citation_keywords"]'')
             (getMetaContent page_keywords ''meta[name="keywords"]'')\<close>
    by (simp add: page_keywords_def page_def meta_tag_def getMetaContent_def querySelector_def
        or_else_def)
  have ne: "?kw \<noteq> []" by simp
  have v: "filter (\<lambda>tag. tag \<noteq> []) (map trim (split_on is_tag_separator ?kw))
      = [''deep learning'', ''vision'', ''optics'']"
    by code_simp
  note spec = extractTags_splits_keywords [OF kw ne, of silent_base]
  from spec [THEN conjunct1]
  have m: "MedRxiv_extractTags silent_base page_keywords = [''deep learning'', ''vision'', ''optics'']"
    by (simp only: v)
  from spec [THEN conjunct2, THEN conjunct1]
  have n: "NeurIPS_extractTags silent_base page_keywords = [''deep learning'', ''vision'', ''optics'']"
    by (simp only: v)
  from kw [symmetric] m n show ?thesis by (intro conjI)
qed

end
